theory Spec2Isabelle
  imports Main
begin

section \<open>The Manifold mint detector (orderbook/mints/calldata/detector/manifold.ts)\<close>

text \<open>
  The detector reads claim configurations from a collection's extension contracts, turns them
  into canonical \<open>CollectionMint\<close> records, reconciles stored records against a fresh
  extraction and caches allowlist proofs. Everything the TypeScript reaches through the network
  (contract reads, the metadata service, the cache) is a field of an environment record; a
  rejected promise is the value \<open>None\<close> of that field. A rejection the source catches becomes
  a branch that goes on; a rejection it does not catch becomes \<open>Inl\<close> of the result.
  The \<open>logger.error\<close> call of the first catch block has no effect on any value and is left out.
\<close>

subsection \<open>JavaScript strings and numbers\<close>

text \<open>A string in a condition is true exactly when it is not empty; \<open>undefined\<close> is false.\<close>

definition truthy :: "string \<Rightarrow> bool" where
  "truthy s = (s \<noteq> [])"

definition truthyOpt :: "string option \<Rightarrow> bool" where
  "truthyOpt x = (case x of None \<Rightarrow> False | Some s \<Rightarrow> truthy s)"

text \<open>A template literal prints an undefined value as the word \<open>undefined\<close>.\<close>

definition interp :: "string option \<Rightarrow> string" where
  "interp x = (case x of None \<Rightarrow> ''undefined'' | Some s \<Rightarrow> s)"

definition lowerChar :: "char \<Rightarrow> char" where
  "lowerChar c = (if 65 \<le> (of_char c :: nat) \<and> (of_char c :: nat) \<le> 90
                  then char_of ((of_char c :: nat) + 32) else c)"

text \<open>\<open>String.prototype.toLowerCase\<close> on the ASCII text of a hex address.\<close>

definition toLowerCase :: "string \<Rightarrow> string" where
  "toLowerCase s = map lowerChar s"

definition startsWith :: "string \<Rightarrow> string \<Rightarrow> bool" where
  "startsWith s p = (take (length p) s = p)"

definition digitChar :: "nat \<Rightarrow> char" where
  "digitChar d = char_of (48 + d)"

text \<open>
  \<open>BigNumber.toString()\<close> and \<open>Number.toString()\<close> of a non-negative integer: the decimal
  digits, most significant first, no leading zero. A BigNumber is unbounded, so \<open>add\<close> is
  addition on \<open>nat\<close>.
\<close>

fun toString :: "nat \<Rightarrow> string" where
  "toString n = (if n < 10 then [digitChar n]
                 else toString (n div 10) @ [digitChar (n mod 10)])"

declare toString.simps [simp del]

text \<open>\<open>bn(s)\<close> of a decimal string.\<close>

definition bn :: "string \<Rightarrow> nat" where
  "bn s = foldl (\<lambda>a c. 10 * a + ((of_char c :: nat) - 48)) 0 s"

subsection \<open>Data model\<close>

datatype MintKind = Public | Allowlist

datatype MintStatus = Open | Closed

datatype AbiValue = AbiString string | AbiEmptyArray

record Param =
  paramKind :: string
  abiType :: string
  abiValue :: "AbiValue option"

record TxData =
  signature :: string
  params :: "Param list"

record TxTemplate =
  txTo :: string
  txData :: TxData

record Info =
  merkleTreeId :: "string option"

record Details =
  tx :: TxTemplate
  info :: "Info option"

record CollectionMint =
  collection :: string
  contract :: string
  stage :: string
  kind :: MintKind
  status :: MintStatus
  standard :: string
  details :: Details
  currency :: string
  price :: string
  tokenId :: "string option"
  maxMintsPerWallet :: "string option"
  maxSupply :: "string option"
  startTime :: "nat option"
  endTime :: "nat option"
  allowlistId :: "string option"
  statusReason :: "string option"

text \<open>The tuple \<open>getClaimForToken\<close> decodes (uint32 and uint48 fields arrive as numbers).\<close>

record Claim1155 =
  c_total :: nat
  c_totalMax :: nat
  c_walletMax :: nat
  c_startDate :: nat
  c_endDate :: nat
  c_storageProtocol :: nat
  c_merkleRoot :: string
  c_location :: string
  c_tokenId :: nat
  c_cost :: nat
  c_paymentReceiver :: string
  c_erc20 :: string

text \<open>The older \<open>getClaim\<close> shape: no \<open>erc20\<close> field.\<close>

record ClaimV1 =
  v1_total :: nat
  v1_totalMax :: nat
  v1_walletMax :: nat
  v1_startDate :: nat
  v1_endDate :: nat
  v1_storageProtocol :: nat
  v1_identical :: bool
  v1_merkleRoot :: string
  v1_location :: string
  v1_cost :: nat
  v1_paymentReceiver :: string

record ClaimV2 = ClaimV1 +
  v2_erc20 :: string

text \<open>The local \<open>claimConfig\<close> object of \<open>extractByCollection\<close>.\<close>

record ClaimConfig =
  cc_total :: nat
  cc_totalMax :: nat
  cc_walletMax :: nat
  cc_startDate :: nat
  cc_endDate :: nat
  cc_storageProtocol :: nat
  cc_identical :: bool
  cc_merkleRoot :: string
  cc_location :: string
  cc_cost :: string
  cc_paymentReceiver :: string
  cc_erc20 :: string
  cc_mintFee :: string
  cc_mintFeeMerkle :: string

text \<open>The type \<open>ProofValue\<close> of line 546.\<close>

record ProofValue =
  merkleProof :: "string list"
  proofValue :: string

record Transaction =
  tx_to :: string
  tx_data :: string

datatype error = RpcError | MetadataError | StatusError | ProofError

text \<open>
  The environment: the chain as the provider shows it, the metadata service, the ABI decoder,
  the stored records and the helpers of this repository that are called but defined elsewhere.
  The first argument of every contract read is the address of the contract called.
\<close>

record env =
  ethAddress :: string
  getExtensions :: "string \<Rightarrow> string list option"
  getClaimForToken :: "string \<Rightarrow> string \<Rightarrow> string \<Rightarrow> (nat \<times> Claim1155) option"
  MINT_FEE :: "string \<Rightarrow> nat option"
  MINT_FEE_MERKLE :: "string \<Rightarrow> nat option"
  getClaimV1 :: "string \<Rightarrow> string \<Rightarrow> string \<Rightarrow> ClaimV1 option"
  getClaimV2 :: "string \<Rightarrow> string \<Rightarrow> string option \<Rightarrow> ClaimV2 option"
  fetchMetadata :: "string \<Rightarrow> string option option"
  getStatus :: "CollectionMint \<Rightarrow> (MintStatus \<times> string option) option"
  decodeInstanceId :: "string \<Rightarrow> string \<Rightarrow> nat option"
  getCollectionMints :: "string \<Rightarrow> string \<Rightarrow> CollectionMint list"
  axiosGet :: "string \<Rightarrow> ProofValue list option"

definition STANDARD :: string where
  "STANDARD = ''manifold''"

definition HashZero :: string where
  "HashZero = ''0x0000000000000000000000000000000000000000000000000000000000000000''"

text \<open>
  Modelled from the spec: \<open>toSafeTimestamp\<close> lives in orderbook/mints/calldata/helpers,
  which is not among the sources. The spec gives its contract: a zero field means that no
  bound was set and surfaces as absent, a non-zero value is the identical numeric timestamp.
\<close>

definition toSafeTimestamp :: "nat \<Rightarrow> nat option" where
  "toSafeTimestamp v = (if v = 0 then None else Some v)"

subsection \<open>The calldata templates\<close>

text \<open>
  The \<open>mintBatch\<close> template is written out four times in the source; the copies differ only
  in the literal of the second slot (the instance id or the claim index).
\<close>

definition publicTx :: "string \<Rightarrow> AbiValue option \<Rightarrow> TxTemplate" where
  "publicTx extension idValue =
     \<lparr>txTo = toLowerCase extension,
      txData = \<lparr>signature = ''0x26c858a4'',
                params =
                  [\<lparr>paramKind = ''contract'', abiType = ''address'', abiValue = None\<rparr>,
                   \<lparr>paramKind = ''unknown'', abiType = ''uint256'', abiValue = idValue\<rparr>,
                   \<lparr>paramKind = ''quantity'', abiType = ''uint16'', abiValue = None\<rparr>,
                   \<lparr>paramKind = ''unknown'', abiType = ''uint32[]'', abiValue = Some AbiEmptyArray\<rparr>,
                   \<lparr>paramKind = ''unknown'', abiType = ''bytes32[][]'', abiValue = Some AbiEmptyArray\<rparr>,
                   \<lparr>paramKind = ''recipient'', abiType = ''address'', abiValue = None\<rparr>]\<rparr>\<rparr>"

definition allowlistTx :: "string \<Rightarrow> AbiValue option \<Rightarrow> TxTemplate" where
  "allowlistTx extension idValue =
     \<lparr>txTo = toLowerCase extension,
      txData = \<lparr>signature = ''0x26c858a4'',
                params =
                  [\<lparr>paramKind = ''contract'', abiType = ''address'', abiValue = None\<rparr>,
                   \<lparr>paramKind = ''unknown'', abiType = ''uint256'', abiValue = idValue\<rparr>,
                   \<lparr>paramKind = ''quantity'', abiType = ''uint16'', abiValue = None\<rparr>,
                   \<lparr>paramKind = ''allowlist'', abiType = ''uint32[]'', abiValue = None\<rparr>,
                   \<lparr>paramKind = ''allowlist'', abiType = ''bytes32[][]'', abiValue = None\<rparr>,
                   \<lparr>paramKind = ''recipient'', abiType = ''address'', abiValue = None\<rparr>]\<rparr>\<rparr>"

definition metadataUrl :: "string \<Rightarrow> string" where
  "metadataUrl ident = ''https://apps.api.manifoldxyz.dev/public/instance/data?id='' @ ident"

subsection \<open>The four record literals of extractByCollection\<close>

text \<open>Lines 86-140: the per-token claim, public sale.\<close>

definition mint1155Public ::
  "env \<Rightarrow> string \<Rightarrow> string \<Rightarrow> string \<Rightarrow> string \<Rightarrow> Claim1155 \<Rightarrow> nat \<Rightarrow> CollectionMint" where
  "mint1155Public e coll tok extension instanceId claim fee =
     \<lparr>collection = coll,
      contract = coll,
      stage = ''claim-'' @ toLowerCase extension @ ''-'' @ instanceId,
      kind = Public,
      status = Open,
      standard = STANDARD,
      details = \<lparr>tx = publicTx extension (Some (AbiString instanceId)), info = None\<rparr>,
      currency = ethAddress e,
      price = toString (c_cost claim + fee),
      tokenId = Some tok,
      maxMintsPerWallet =
        (if c_walletMax claim > 0 then Some (toString (c_walletMax claim)) else None),
      maxSupply = (if c_totalMax claim > 0 then Some (toString (c_totalMax claim)) else None),
      startTime = (if c_startDate claim \<noteq> 0 then toSafeTimestamp (c_startDate claim) else None),
      endTime = (if c_endDate claim \<noteq> 0 then toSafeTimestamp (c_endDate claim) else None),
      allowlistId = None,
      statusReason = None\<rparr>"

text \<open>Lines 153-209: the per-token claim, allowlist sale.\<close>

definition mint1155Allowlist ::
  "env \<Rightarrow> string \<Rightarrow> string \<Rightarrow> string \<Rightarrow> string \<Rightarrow> Claim1155 \<Rightarrow> nat \<Rightarrow> string option
     \<Rightarrow> CollectionMint" where
  "mint1155Allowlist e coll tok extension instanceId claim fee treeId =
     \<lparr>collection = coll,
      contract = coll,
      stage = ''claim-'' @ toLowerCase extension @ ''-'' @ instanceId,
      kind = Allowlist,
      status = Open,
      standard = STANDARD,
      details = \<lparr>tx = allowlistTx extension (Some (AbiString instanceId)),
                 info = Some \<lparr>merkleTreeId = treeId\<rparr>\<rparr>,
      currency = ethAddress e,
      price = toString (c_cost claim + fee),
      tokenId = Some tok,
      maxMintsPerWallet =
        (if c_walletMax claim > 0 then Some (toString (c_walletMax claim)) else None),
      maxSupply = (if c_totalMax claim > 0 then Some (toString (c_totalMax claim)) else None),
      startTime = (if c_startDate claim \<noteq> 0 then toSafeTimestamp (c_startDate claim) else None),
      endTime = (if c_endDate claim \<noteq> 0 then toSafeTimestamp (c_endDate claim) else None),
      allowlistId = Some (c_merkleRoot claim),
      statusReason = None\<rparr>"

text \<open>Lines 345-401: the collection-wide claim, public sale. The literal has a \<open>tokenId\<close>.\<close>

definition mint721Public ::
  "env \<Rightarrow> string \<Rightarrow> string \<Rightarrow> string \<Rightarrow> string option \<Rightarrow> ClaimConfig \<Rightarrow> CollectionMint" where
  "mint721Public e coll tok extension claimIndex claimConfig =
     \<lparr>collection = coll,
      contract = coll,
      stage = ''claim-'' @ toLowerCase extension @ ''-'' @ interp claimIndex,
      kind = Public,
      status = Open,
      standard = STANDARD,
      details = \<lparr>tx = publicTx extension (map_option AbiString claimIndex), info = None\<rparr>,
      currency = ethAddress e,
      price = toString (bn (cc_cost claimConfig) + bn (cc_mintFee claimConfig)),
      tokenId = Some tok,
      maxMintsPerWallet =
        (if cc_walletMax claimConfig > 0 then Some (toString (cc_walletMax claimConfig))
         else None),
      maxSupply =
        (if cc_totalMax claimConfig > 0 then Some (toString (cc_totalMax claimConfig)) else None),
      startTime =
        (if cc_startDate claimConfig \<noteq> 0 then toSafeTimestamp (cc_startDate claimConfig)
         else None),
      endTime =
        (if cc_endDate claimConfig \<noteq> 0 then toSafeTimestamp (cc_endDate claimConfig) else None),
      allowlistId = None,
      statusReason = None\<rparr>"

text \<open>Lines 413-470: the collection-wide claim, allowlist sale. The literal has no \<open>tokenId\<close>.\<close>

definition mint721Allowlist ::
  "env \<Rightarrow> string \<Rightarrow> string \<Rightarrow> string option \<Rightarrow> ClaimConfig \<Rightarrow> string option
     \<Rightarrow> CollectionMint" where
  "mint721Allowlist e coll extension claimIndex claimConfig treeId =
     \<lparr>collection = coll,
      contract = coll,
      stage = ''claim-'' @ toLowerCase extension @ ''-'' @ interp claimIndex,
      kind = Allowlist,
      status = Open,
      standard = STANDARD,
      details = \<lparr>tx = allowlistTx extension (map_option AbiString claimIndex),
                 info = Some \<lparr>merkleTreeId = treeId\<rparr>\<rparr>,
      currency = ethAddress e,
      price = toString (bn (cc_cost claimConfig) + bn (cc_mintFeeMerkle claimConfig)),
      tokenId = None,
      maxMintsPerWallet =
        (if cc_walletMax claimConfig > 0 then Some (toString (cc_walletMax claimConfig))
         else None),
      maxSupply =
        (if cc_totalMax claimConfig > 0 then Some (toString (cc_totalMax claimConfig)) else None),
      startTime =
        (if cc_startDate claimConfig \<noteq> 0 then toSafeTimestamp (cc_startDate claimConfig)
         else None),
      endTime =
        (if cc_endDate claimConfig \<noteq> 0 then toSafeTimestamp (cc_endDate claimConfig) else None),
      allowlistId = Some (cc_merkleRoot claimConfig),
      statusReason = None\<rparr>"

subsection \<open>extractByCollection\<close>

text \<open>
  Lines 70-214, the first \<open>try\<close> block. \<open>Some rs\<close>: the function returns \<open>rs\<close>.
  \<open>None\<close>: control leaves the block without a return, because the condition failed or because
  a call inside the block was rejected and the \<open>catch\<close> swallowed it (both fee reads and the
  metadata fetch are inside the block).
\<close>

definition try1155 :: "env \<Rightarrow> string \<Rightarrow> string \<Rightarrow> string \<Rightarrow> CollectionMint list option" where
  "try1155 e coll tok extension =
     (case getClaimForToken e extension coll tok of
        None \<Rightarrow> None
      | Some (resultInstanceId, claim) \<Rightarrow>
          let instanceId = toString resultInstanceId in
          if instanceId \<noteq> ''0'' \<and> toLowerCase (c_erc20 claim) = ethAddress e then
            if c_merkleRoot claim = HashZero then
              (case MINT_FEE e extension of
                 None \<Rightarrow> None
               | Some fee \<Rightarrow> Some [mint1155Public e coll tok extension instanceId claim fee])
            else if c_merkleRoot claim \<noteq> HashZero then
              (case MINT_FEE_MERKLE e extension of
                 None \<Rightarrow> None
               | Some fee \<Rightarrow>
                   (case fetchMetadata e (metadataUrl instanceId) of
                      None \<Rightarrow> None
                    | Some treeId \<Rightarrow>
                        Some [mint1155Allowlist e coll tok extension instanceId claim fee treeId]))
            else None
          else None)"

text \<open>Lines 293-308: the \<open>claimConfig\<close> literal built from the older shape.\<close>

definition claimConfigV1 :: "env \<Rightarrow> ClaimV1 \<Rightarrow> ClaimConfig" where
  "claimConfigV1 e claim =
     \<lparr>cc_total = v1_total claim,
      cc_totalMax = v1_totalMax claim,
      cc_walletMax = v1_walletMax claim,
      cc_startDate = v1_startDate claim,
      cc_endDate = v1_endDate claim,
      cc_storageProtocol = v1_storageProtocol claim,
      cc_identical = v1_identical claim,
      cc_merkleRoot = v1_merkleRoot claim,
      cc_location = v1_location claim,
      cc_cost = toString (v1_cost claim),
      cc_paymentReceiver = v1_paymentReceiver claim,
      cc_erc20 = ethAddress e,
      cc_mintFee = ''0'',
      cc_mintFeeMerkle = ''0''\<rparr>"

text \<open>Lines 320-335: the \<open>claimConfig\<close> literal built from the newer shape and the two fees.\<close>

definition claimConfigV2 :: "ClaimV2 \<Rightarrow> nat \<Rightarrow> nat \<Rightarrow> ClaimConfig" where
  "claimConfigV2 claim mintFee mintFeeMerkle =
     \<lparr>cc_total = v1_total claim,
      cc_totalMax = v1_totalMax claim,
      cc_walletMax = v1_walletMax claim,
      cc_startDate = v1_startDate claim,
      cc_endDate = v1_endDate claim,
      cc_storageProtocol = v1_storageProtocol claim,
      cc_identical = v1_identical claim,
      cc_merkleRoot = v1_merkleRoot claim,
      cc_location = v1_location claim,
      cc_cost = toString (v1_cost claim),
      cc_paymentReceiver = v1_paymentReceiver claim,
      cc_erc20 = v2_erc20 claim,
      cc_mintFee = toString mintFee,
      cc_mintFeeMerkle = toString mintFeeMerkle\<rparr>"

text \<open>The contract reads of the claim-index ladder, in the order they are issued.\<close>

datatype RpcCall =
    CallGetClaimV1 string string string
  | CallGetClaimV2 string string "string option"
  | CallMintFee string
  | CallMintFeeMerkle string

text \<open>
  Lines 290-312: the older shape. The second component is \<open>claimConfig\<close> after the block
  (it starts as \<open>null\<close>); the first lists the reads made.
\<close>

definition tryClaimV1 ::
  "env \<Rightarrow> string \<Rightarrow> string option \<Rightarrow> string \<Rightarrow> RpcCall list \<times> ClaimConfig option" where
  "tryClaimV1 e coll claimIndex extension =
     (case claimIndex of
        None \<Rightarrow> ([], None)
      | Some ci \<Rightarrow>
          if truthy ci then
            ([CallGetClaimV1 extension coll ci],
             case getClaimV1 e extension coll ci of
               None \<Rightarrow> None
             | Some claim \<Rightarrow> Some (claimConfigV1 e claim))
          else ([], None))"

text \<open>
  Lines 314-338: the newer shape. \<open>Promise.all\<close> issues the three reads together and is
  rejected when one of them is; then \<open>claimConfig\<close> keeps its previous value.
\<close>

definition tryClaimV2 ::
  "env \<Rightarrow> string \<Rightarrow> string option \<Rightarrow> string \<Rightarrow> ClaimConfig option
     \<Rightarrow> RpcCall list \<times> ClaimConfig option" where
  "tryClaimV2 e coll claimIndex extension previous =
     ([CallGetClaimV2 extension coll claimIndex, CallMintFee extension,
       CallMintFeeMerkle extension],
      case getClaimV2 e extension coll claimIndex of
        None \<Rightarrow> previous
      | Some claim \<Rightarrow>
          (case MINT_FEE e extension of
             None \<Rightarrow> previous
           | Some mintFee \<Rightarrow>
               (case MINT_FEE_MERKLE e extension of
                  None \<Rightarrow> previous
                | Some mintFeeMerkle \<Rightarrow> Some (claimConfigV2 claim mintFee mintFeeMerkle))))"

definition resolveClaimConfig ::
  "env \<Rightarrow> string \<Rightarrow> string option \<Rightarrow> string \<Rightarrow> RpcCall list \<times> ClaimConfig option" where
  "resolveClaimConfig e coll claimIndex extension =
     (let (calls1, config1) = tryClaimV1 e coll claimIndex extension;
          (calls2, config2) = tryClaimV2 e coll claimIndex extension config1
      in (calls1 @ calls2, config2))"

text \<open>
  Lines 340-472. The metadata fetch of the allowlist branch is outside every \<open>try\<close>: its
  rejection rejects \<open>extractByCollection\<close>.
\<close>

definition try721 ::
  "env \<Rightarrow> string \<Rightarrow> string \<Rightarrow> string option \<Rightarrow> string \<Rightarrow> error + CollectionMint list option"
  where
  "try721 e coll tok claimIndex extension =
     (case snd (resolveClaimConfig e coll claimIndex extension) of
        None \<Rightarrow> Inr None
      | Some claimConfig \<Rightarrow>
          if cc_merkleRoot claimConfig = HashZero then
            Inr (Some [mint721Public e coll tok extension claimIndex claimConfig])
          else if cc_merkleRoot claimConfig \<noteq> HashZero then
            (case fetchMetadata e (metadataUrl (interp claimIndex)) of
               None \<Rightarrow> Inl MetadataError
             | Some treeId \<Rightarrow>
                 Inr (Some [mint721Allowlist e coll extension claimIndex claimConfig treeId]))
          else Inr None)"

text \<open>One iteration of the loop over the extensions.\<close>

definition extractExtension ::
  "env \<Rightarrow> string \<Rightarrow> string \<Rightarrow> string option \<Rightarrow> string \<Rightarrow> error + CollectionMint list option"
  where
  "extractExtension e coll tok claimIndex extension =
     (case try1155 e coll tok extension of
        Some rs \<Rightarrow> Inr (Some rs)
      | None \<Rightarrow> try721 e coll tok claimIndex extension)"

text \<open>The loop: \<open>Inr (Some rs)\<close> is a return from inside it, \<open>Inr None\<close> its normal end.\<close>

fun forExtensions ::
  "env \<Rightarrow> string \<Rightarrow> string \<Rightarrow> string option \<Rightarrow> string list
     \<Rightarrow> error + CollectionMint list option" where
  "forExtensions e coll tok claimIndex [] = Inr None"
| "forExtensions e coll tok claimIndex (extension # rest) =
     (case extractExtension e coll tok claimIndex extension of
        Inl err \<Rightarrow> Inl err
      | Inr (Some rs) \<Rightarrow> Inr (Some rs)
      | Inr None \<Rightarrow> forExtensions e coll tok claimIndex rest)"

text \<open>
  Lines 475-485: \<open>Promise.all\<close> over \<open>getStatus\<close> of every element of \<open>results\<close>, each
  overwriting \<open>status\<close> and \<open>statusReason\<close>.
\<close>

fun updateStatuses :: "env \<Rightarrow> CollectionMint list \<Rightarrow> error + CollectionMint list" where
  "updateStatuses e [] = Inr []"
| "updateStatuses e (cm # cms) =
     (case getStatus e cm of
        None \<Rightarrow> Inl StatusError
      | Some (st, reason) \<Rightarrow>
          (case updateStatuses e cms of
             Inl err \<Rightarrow> Inl err
           | Inr cms' \<Rightarrow> Inr (cm\<lparr>status := st, statusReason := reason\<rparr> # cms')))"

text \<open>
  Lines 32-38: the extensions to try. A non-empty hint is the only one; otherwise the
  collection is asked, and \<open>None\<close> is its rejection.
\<close>

definition resolveExtensions :: "env \<Rightarrow> string \<Rightarrow> string option \<Rightarrow> string list option" where
  "resolveExtensions e coll extension =
     (case extension of
        None \<Rightarrow> getExtensions e coll
      | Some x \<Rightarrow> if truthy x then Some [x] else getExtensions e coll)"

definition extractByCollection ::
  "env \<Rightarrow> string \<Rightarrow> string \<Rightarrow> string option \<Rightarrow> string option \<Rightarrow> error + CollectionMint list"
  where
  "extractByCollection e coll tok extension claimIndex =
     (case resolveExtensions e coll extension of
        None \<Rightarrow> Inl RpcError
      | Some extensions \<Rightarrow>
          let results = [] in
          (case forExtensions e coll tok claimIndex extensions of
             Inl err \<Rightarrow> Inl err
           | Inr (Some rs) \<Rightarrow> Inr rs
           | Inr None \<Rightarrow> updateStatuses e results))"

subsection \<open>extractByTx\<close>

definition extractByTx ::
  "env \<Rightarrow> string \<Rightarrow> string \<Rightarrow> Transaction \<Rightarrow> error + CollectionMint list" where
  "extractByTx e coll tok t =
     (if list_ex (\<lambda>bytes4. startsWith (tx_data t) bytes4) [''0xfa2b068f'', ''0x26c858a4''] then
        let instanceId =
              map_option toString
                (decodeInstanceId e
                   (if startsWith (tx_data t) ''0xfa2b068f'' then ''mint'' else ''mintBatch'')
                   (tx_data t))
        in extractByCollection e coll tok (Some (tx_to t)) instanceId
      else Inr [])"

subsection \<open>refreshByCollection\<close>

text \<open>
  \<open>simulateAndUpsertCollectionMint\<close> is called for its effect on the stored records. The
  model keeps the log of its calls, oldest first: the argument of every call, in order.
\<close>

text \<open>Lines 522-524.\<close>

fun upsertLatest :: "CollectionMint list \<Rightarrow> CollectionMint list \<Rightarrow> CollectionMint list" where
  "upsertLatest [] log = log"
| "upsertLatest (collectionMint # rest) log = upsertLatest rest (log @ [collectionMint])"

text \<open>The predicate given to \<open>find\<close>, lines 531-534.\<close>

definition sameMint :: "CollectionMint \<Rightarrow> CollectionMint \<Rightarrow> bool" where
  "sameMint latest existing =
     (collection latest = collection existing \<and> stage latest = stage existing \<and>
      tokenId latest = tokenId existing)"

text \<open>Lines 528-542: the inner loop over all stored records.\<close>

fun closeMissing ::
  "CollectionMint list \<Rightarrow> CollectionMint list \<Rightarrow> CollectionMint list \<Rightarrow> CollectionMint list" where
  "closeMissing latestCollectionMints [] log = log"
| "closeMissing latestCollectionMints (existing # rest) log =
     (if find (\<lambda>latest. sameMint latest existing) latestCollectionMints = None
      then closeMissing latestCollectionMints rest (log @ [existing\<lparr>status := Closed\<rparr>])
      else closeMissing latestCollectionMints rest log)"

text \<open>
  Lines 519-543: the outer loop, over the stored records that have a \<open>tokenId\<close>. A rejected
  extraction ends the refresh; the log written so far stays.
\<close>

fun refreshLoop ::
  "env \<Rightarrow> string \<Rightarrow> CollectionMint list \<Rightarrow> CollectionMint list \<Rightarrow> CollectionMint list
     \<Rightarrow> CollectionMint list \<times> error option" where
  "refreshLoop e coll existingCollectionMints [] log = (log, None)"
| "refreshLoop e coll existingCollectionMints (cm # rest) log =
     (case extractByCollection e coll (interp (tokenId cm)) None None of
        Inl err \<Rightarrow> (log, Some err)
      | Inr latestCollectionMints \<Rightarrow>
          refreshLoop e coll existingCollectionMints rest
            (closeMissing latestCollectionMints existingCollectionMints
               (upsertLatest latestCollectionMints log)))"

definition refreshByCollection :: "env \<Rightarrow> string \<Rightarrow> CollectionMint list \<times> error option" where
  "refreshByCollection e coll =
     (let existingCollectionMints = getCollectionMints e coll STANDARD
      in refreshLoop e coll existingCollectionMints
           (filter (\<lambda>cm. truthyOpt (tokenId cm)) existingCollectionMints) [])"

text \<open>
  Modelled from the spec: \<open>getCollectionMints\<close> and \<open>simulateAndUpsertCollectionMint\<close> live
  in orderbook/mints, which is not among the sources. The spec keys a stored record by its
  triple of collection, stage and tokenId; an upsert replaces the stored record of that triple or
  adds a new one, and a record is closed, never deleted. The store below holds the records of one
  collection and standard, in the order \<open>getCollectionMints\<close> lists them.
\<close>

fun upsertStore :: "CollectionMint \<Rightarrow> CollectionMint list \<Rightarrow> CollectionMint list" where
  "upsertStore cm [] = [cm]"
| "upsertStore cm (x # xs) = (if sameMint cm x then cm # xs else x # upsertStore cm xs)"

definition applyWrites :: "CollectionMint list \<Rightarrow> CollectionMint list \<Rightarrow> CollectionMint list" where
  "applyWrites store log = foldl (\<lambda>st cm. upsertStore cm st) store log"

definition refreshWrites :: "env \<Rightarrow> string \<Rightarrow> CollectionMint list \<Rightarrow> CollectionMint list" where
  "refreshWrites e coll store =
     fst (refreshByCollection (e\<lparr>getCollectionMints := \<lambda>c st. store\<rparr>) coll)"

definition refreshStore :: "env \<Rightarrow> string \<Rightarrow> CollectionMint list \<Rightarrow> CollectionMint list" where
  "refreshStore e coll store = applyWrites store (refreshWrites e coll store)"

text \<open>The triple a stored record is keyed by.\<close>

definition mintKey :: "CollectionMint \<Rightarrow> string \<times> string \<times> string option" where
  "mintKey cm = (collection cm, stage cm, tokenId cm)"

subsection \<open>generateProofValue\<close>

text \<open>
  The cache is Redis: a value per key with the time it expires at; \<open>get\<close> at time \<open>now\<close>
  answers only with a value that has not expired, \<open>set ... "EX" ttl\<close> at time \<open>now\<close> stores
  a value that expires at \<open>now + ttl\<close>. The stored text is the JSON of the value; the model
  stores the value. The state also lists the URLs requested from the allowlist service.
\<close>

record CacheState =
  cache :: "string \<Rightarrow> (ProofValue \<times> nat) option"
  fetches :: "string list"

definition redisGet :: "nat \<Rightarrow> CacheState \<Rightarrow> string \<Rightarrow> ProofValue option" where
  "redisGet now st k =
     (case cache st k of
        None \<Rightarrow> None
      | Some (v, expiry) \<Rightarrow> if now < expiry then Some v else None)"

definition redisSetEx :: "nat \<Rightarrow> CacheState \<Rightarrow> string \<Rightarrow> ProofValue \<Rightarrow> nat \<Rightarrow> CacheState" where
  "redisSetEx now st k v ttl = st\<lparr>cache := (cache st)(k \<mapsto> (v, now + ttl))\<rparr>"

text \<open>Line 552.\<close>

definition cacheKey :: "CollectionMint \<Rightarrow> string" where
  "cacheKey collectionMint =
     collection collectionMint @ ''-'' @ stage collectionMint @ ''-'' @
     interp (tokenId collectionMint)"

definition merkleInfoUrl :: "Info \<Rightarrow> string \<Rightarrow> string" where
  "merkleInfoUrl mintInfo address =
     ''https://apps.api.manifoldxyz.dev/public/merkleTree/'' @ interp (merkleTreeId mintInfo) @
     ''/merkleInfo?address='' @ address"

text \<open>
  Lines 548-571. The result is the returned value (\<open>None\<close> for \<open>undefined\<close>) or the error of a
  rejected request, with the state after the call. Reading \<open>merkleTreeId\<close> of a missing
  \<open>details.info\<close> throws.
\<close>

definition generateProofValue ::
  "env \<Rightarrow> nat \<Rightarrow> CacheState \<Rightarrow> CollectionMint \<Rightarrow> string
     \<Rightarrow> (error + ProofValue option) \<times> CacheState" where
  "generateProofValue e now st collectionMint address =
     (case redisGet now st (cacheKey collectionMint) of
        Some result \<Rightarrow> (Inr (Some result), st)
      | None \<Rightarrow>
          (case info (details collectionMint) of
             None \<Rightarrow> (Inl ProofError, st)
           | Some mintInfo \<Rightarrow>
               let url = merkleInfoUrl mintInfo address;
                   st1 = st\<lparr>fetches := fetches st @ [url]\<rparr>
               in (case axiosGet e url of
                     None \<Rightarrow> (Inl ProofError, st1)
                   | Some [] \<Rightarrow> (Inr None, st1)
                   | Some (result # others) \<Rightarrow>
                       (Inr (Some result),
                        redisSetEx now st1 (cacheKey collectionMint) result 3600))))"

subsection \<open>Example chains\<close>

definition exEth :: string where
  "exEth = ''0x0000000000000000000000000000000000000000''"

text \<open>
  The scenario of the specification: cost 100, flat fee 5, no wallet cap, no start date, end
  date 1700000000. \<open>exRoot\<close> is a root that is not the zero hash.
\<close>

definition exRoot :: string where
  "exRoot = ''0x00000000000000000000000000000000000000000000000000000000000000a1''"

definition exClaim1155 :: "string \<Rightarrow> Claim1155" where
  "exClaim1155 root =
     \<lparr>c_total = 3, c_totalMax = 50, c_walletMax = 0, c_startDate = 0, c_endDate = 1700000000,
      c_storageProtocol = 1, c_merkleRoot = root, c_location = ''ar'', c_tokenId = 1,
      c_cost = 100, c_paymentReceiver = ''0xaa'', c_erc20 = exEth\<rparr>"

definition exClaimV1 :: "string \<Rightarrow> ClaimV1" where
  "exClaimV1 root =
     \<lparr>v1_total = 3, v1_totalMax = 50, v1_walletMax = 0, v1_startDate = 0,
      v1_endDate = 1700000000, v1_storageProtocol = 1, v1_identical = True,
      v1_merkleRoot = root, v1_location = ''ar'', v1_cost = 100, v1_paymentReceiver = ''0xaa''\<rparr>"

definition exClaimV2 :: "string \<Rightarrow> ClaimV2" where
  "exClaimV2 root =
     \<lparr>v1_total = 3, v1_totalMax = 50, v1_walletMax = 0, v1_startDate = 0,
      v1_endDate = 1700000000, v1_storageProtocol = 1, v1_identical = True,
      v1_merkleRoot = root, v1_location = ''ar'', v1_cost = 100, v1_paymentReceiver = ''0xaa'',
      v2_erc20 = exEth\<rparr>"

text \<open>A chain on which every claim read fails; one extension, fees 5 and 9.\<close>

definition exEnv :: env where
  "exEnv =
     \<lparr>ethAddress = exEth,
      getExtensions = (\<lambda>c. Some [''0xe1'']),
      getClaimForToken = (\<lambda>x c t. None),
      MINT_FEE = (\<lambda>x. Some 5),
      MINT_FEE_MERKLE = (\<lambda>x. Some 9),
      getClaimV1 = (\<lambda>x c i. None),
      getClaimV2 = (\<lambda>x c i. None),
      fetchMetadata = (\<lambda>u. Some (Some ''tree-1'')),
      getStatus = (\<lambda>cm. Some (Closed, Some ''ended'')),
      decodeInstanceId = (\<lambda>f d. None),
      getCollectionMints = (\<lambda>c st. []),
      axiosGet = (\<lambda>u. None)\<rparr>"

text \<open>The extension holds a per-token claim, instance 7, with the given root.\<close>

definition exEnvToken :: "string \<Rightarrow> env" where
  "exEnvToken root = exEnv\<lparr>getClaimForToken := \<lambda>x c t. Some (7, exClaim1155 root)\<rparr>"

text \<open>The extension answers only the older \<open>getClaim\<close> shape.\<close>

definition exEnvV1 :: "string \<Rightarrow> env" where
  "exEnvV1 root = exEnv\<lparr>getClaimV1 := \<lambda>x c i. Some (exClaimV1 root)\<rparr>"

text \<open>The extension answers only the newer \<open>getClaim\<close> shape.\<close>

definition exEnvV2 :: "string \<Rightarrow> env" where
  "exEnvV2 root = exEnv\<lparr>getClaimV2 := \<lambda>x c i. Some (exClaimV2 root)\<rparr>"

text \<open>The extension answers both shapes; the older one with another cost.\<close>

definition exEnvBoth :: "string \<Rightarrow> env" where
  "exEnvBoth root =
     exEnv\<lparr>getClaimV1 := \<lambda>x c i. Some ((exClaimV1 root)\<lparr>v1_cost := 77\<rparr>),
           getClaimV2 := \<lambda>x c i. Some (exClaimV2 root)\<rparr>"

text \<open>A \<open>mint\<close> transaction to the extension, one to an unknown function, and a decoder.\<close>

definition exMintTx :: Transaction where
  "exMintTx = \<lparr>tx_to = ''0xe1'', tx_data = ''0xfa2b068f0003''\<rparr>"

definition exOtherTx :: Transaction where
  "exOtherTx = \<lparr>tx_to = ''0xe1'', tx_data = ''0xa9059cbb0003''\<rparr>"

definition exEnvTx :: env where
  "exEnvTx = (exEnvV2 HashZero)\<lparr>decodeInstanceId := \<lambda>f d. Some 3\<rparr>"

text \<open>
  Two extensions: the first answers nothing, the second answers the newer \<open>getClaim\<close> shape.
\<close>

definition exEnvSecond :: "string \<Rightarrow> env" where
  "exEnvSecond root =
     exEnv\<lparr>getExtensions := \<lambda>c. Some [''0xe0'', ''0xe1''],
           getClaimV2 := \<lambda>x c i. if x = ''0xe1'' then Some (exClaimV2 root) else None\<rparr>"

text \<open>An empty cache, a proof, and an allowlist service that knows one address.\<close>

definition exCache :: CacheState where
  "exCache = \<lparr>cache = (\<lambda>k. None), fetches = []\<rparr>"

definition exProof :: ProofValue where
  "exProof = \<lparr>merkleProof = [''0x01'', ''0x02''], proofValue = ''4''\<rparr>"

definition exAllowlistMint :: CollectionMint where
  "exAllowlistMint =
     mint1155Allowlist exEnv ''0xc1'' ''1'' ''0xe1'' ''7'' (exClaim1155 exRoot) 9 (Some ''t1'')"

definition exEnvProof :: env where
  "exEnvProof =
     exEnv\<lparr>axiosGet :=
             \<lambda>u. if u = merkleInfoUrl \<lparr>merkleTreeId = Some ''t1''\<rparr> ''0xaa''
                  then Some [exProof] else Some []\<rparr>"

text \<open>
  A chain where token 1 is claimed under instance 7 and token 2 under instance 2, with the
  records extracted from it for the two tokens.
\<close>

definition exEnvTwo :: env where
  "exEnvTwo =
     exEnv\<lparr>getClaimForToken :=
             \<lambda>x c t. if t = ''1'' then Some (7, exClaim1155 HashZero)
                     else if t = ''2'' then Some (2, exClaim1155 HashZero) else None\<rparr>"

definition exMintA :: CollectionMint where
  "exMintA = mint1155Public exEnv ''0xc1'' ''1'' ''0xe1'' ''7'' (exClaim1155 HashZero) 5"

definition exMintTwo :: CollectionMint where
  "exMintTwo = mint1155Public exEnv ''0xc1'' ''2'' ''0xe1'' ''2'' (exClaim1155 HashZero) 5"

text \<open>The same chain, with both records stored.\<close>

definition exEnvLive :: env where
  "exEnvLive = exEnvTwo\<lparr>getCollectionMints := \<lambda>c st. [exMintA, exMintTwo]\<rparr>"

text \<open>A record stored for token 1 when it was claimed under the former instance 5.\<close>

definition exMintOld :: CollectionMint where
  "exMintOld = mint1155Public exEnv ''0xc1'' ''1'' ''0xe1'' ''5'' (exClaim1155 HashZero) 5"

section \<open>Properties\<close>

subsection \<open>Decimal strings\<close>

lemma digit_value: "d < 10 \<Longrightarrow> (of_char (digitChar d) :: nat) - 48 = d"
  by (simp add: digitChar_def)

lemma bn_snoc: "bn (s @ [c]) = 10 * bn s + ((of_char c :: nat) - 48)"
  by (simp add: bn_def)

lemma bn_toString: "bn (toString n) = n"
proof (induction n rule: toString.induct)
  case (1 n)
  show ?case
  proof (cases "n < 10")
    case True
    then show ?thesis
      by (subst toString.simps) (simp add: bn_def digit_value)
  next
    case False
    then have "bn (toString (n div 10)) = n div 10"
      using 1 by simp
    with False show ?thesis
      by (subst toString.simps) (simp add: bn_snoc digit_value)
  qed
qed

lemma toString_inj: "toString a = toString b \<Longrightarrow> a = b"
  by (metis bn_toString)

lemma digitChar_numerals:
  "digitChar 0 = CHR ''0''" "digitChar 1 = CHR ''1''" "digitChar 2 = CHR ''2''"
  "digitChar 3 = CHR ''3''" "digitChar 4 = CHR ''4''" "digitChar 5 = CHR ''5''"
  "digitChar 6 = CHR ''6''" "digitChar 7 = CHR ''7''" "digitChar 8 = CHR ''8''"
  "digitChar 9 = CHR ''9''" "digitChar (Suc 0) = CHR ''1''"
  unfolding digitChar_def by code_simp+

lemmas toString_eval = toString.simps digitChar_numerals

lemma toString_zero: "toString 0 = ''0''"
  by (simp add: toString_eval)

lemma toString_eq_zero: "toString n = ''0'' \<longleftrightarrow> n = 0"
  using toString_inj [of n 0] by (auto simp: toString_zero)

lemma bn_zero: "bn ''0'' = 0"
  by (simp add: bn_def)

subsection \<open>Which literal a returned record is\<close>

lemma claimConfigV1_sel [simp]:
  "cc_merkleRoot (claimConfigV1 e c) = v1_merkleRoot c"
  "cc_cost (claimConfigV1 e c) = toString (v1_cost c)"
  "cc_mintFee (claimConfigV1 e c) = ''0''"
  "cc_mintFeeMerkle (claimConfigV1 e c) = ''0''"
  "cc_walletMax (claimConfigV1 e c) = v1_walletMax c"
  "cc_totalMax (claimConfigV1 e c) = v1_totalMax c"
  "cc_startDate (claimConfigV1 e c) = v1_startDate c"
  "cc_endDate (claimConfigV1 e c) = v1_endDate c"
  by (simp_all add: claimConfigV1_def)

lemma claimConfigV2_sel [simp]:
  "cc_merkleRoot (claimConfigV2 c f fm) = v1_merkleRoot c"
  "cc_cost (claimConfigV2 c f fm) = toString (v1_cost c)"
  "cc_mintFee (claimConfigV2 c f fm) = toString f"
  "cc_mintFeeMerkle (claimConfigV2 c f fm) = toString fm"
  "cc_walletMax (claimConfigV2 c f fm) = v1_walletMax c"
  "cc_totalMax (claimConfigV2 c f fm) = v1_totalMax c"
  "cc_startDate (claimConfigV2 c f fm) = v1_startDate c"
  "cc_endDate (claimConfigV2 c f fm) = v1_endDate c"
  by (simp_all add: claimConfigV2_def)

lemmas mint_defs = mint1155Public_def mint1155Allowlist_def mint721Public_def mint721Allowlist_def

lemma try1155_cases:
  assumes "try1155 e coll tok ext = Some rs"
  obtains (Token_Public) iid claim fee where
      "getClaimForToken e ext coll tok = Some (iid, claim)"
      "toString iid \<noteq> ''0''" "toLowerCase (c_erc20 claim) = ethAddress e"
      "c_merkleRoot claim = HashZero" "MINT_FEE e ext = Some fee"
      "rs = [mint1155Public e coll tok ext (toString iid) claim fee]"
  | (Token_Allowlist) iid claim fee treeId where
      "getClaimForToken e ext coll tok = Some (iid, claim)"
      "toString iid \<noteq> ''0''" "toLowerCase (c_erc20 claim) = ethAddress e"
      "c_merkleRoot claim \<noteq> HashZero" "MINT_FEE_MERKLE e ext = Some fee"
      "fetchMetadata e (metadataUrl (toString iid)) = Some treeId"
      "rs = [mint1155Allowlist e coll tok ext (toString iid) claim fee treeId]"
  using assms unfolding try1155_def
  by (auto simp: Let_def split: option.splits if_splits prod.splits)

lemma resolveClaimConfig_cases:
  assumes "snd (resolveClaimConfig e coll ci ext) = Some cfg"
  obtains (Newer) claim f fm where
      "getClaimV2 e ext coll ci = Some claim" "MINT_FEE e ext = Some f"
      "MINT_FEE_MERKLE e ext = Some fm" "cfg = claimConfigV2 claim f fm"
  | (Older) i claim where
      "getClaimV2 e ext coll ci = None \<or> MINT_FEE e ext = None \<or> MINT_FEE_MERKLE e ext = None"
      "ci = Some i" "truthy i" "getClaimV1 e ext coll i = Some claim"
      "cfg = claimConfigV1 e claim"
  using assms unfolding resolveClaimConfig_def tryClaimV1_def tryClaimV2_def
  by (auto split: option.splits if_splits)

lemma try721_cases:
  assumes "try721 e coll tok ci ext = Inr (Some rs)"
  obtains (Index_Public) cfg where
      "snd (resolveClaimConfig e coll ci ext) = Some cfg"
      "cc_merkleRoot cfg = HashZero"
      "rs = [mint721Public e coll tok ext ci cfg]"
  | (Index_Allowlist) cfg treeId where
      "snd (resolveClaimConfig e coll ci ext) = Some cfg"
      "cc_merkleRoot cfg \<noteq> HashZero"
      "fetchMetadata e (metadataUrl (interp ci)) = Some treeId"
      "rs = [mint721Allowlist e coll ext ci cfg treeId]"
  using assms unfolding try721_def
  by (auto split: option.splits if_splits)

lemma forExtensions_Some:
  "forExtensions e coll tok ci exts = Inr (Some rs) \<Longrightarrow>
   \<exists>ext \<in> set exts. extractExtension e coll tok ci ext = Inr (Some rs)"
  by (induction exts) (auto split: sum.splits option.splits)

lemma extractByCollection_Inr:
  assumes "extractByCollection e coll tok extension ci = Inr rs"
  shows "rs = [] \<or> (\<exists>ext. extractExtension e coll tok ci ext = Inr (Some rs))"
  using assms unfolding extractByCollection_def
  by (auto simp: Let_def split: option.splits sum.splits dest: forExtensions_Some)

lemma extractByCollection_cases:
  assumes "extractByCollection e coll tok extension ci = Inr rs" and "r \<in> set rs"
  obtains (Token_Public) ext iid claim fee where
      "getClaimForToken e ext coll tok = Some (iid, claim)"
      "toString iid \<noteq> ''0''" "toLowerCase (c_erc20 claim) = ethAddress e"
      "c_merkleRoot claim = HashZero" "MINT_FEE e ext = Some fee"
      "rs = [r]" "r = mint1155Public e coll tok ext (toString iid) claim fee"
  | (Token_Allowlist) ext iid claim fee treeId where
      "getClaimForToken e ext coll tok = Some (iid, claim)"
      "toString iid \<noteq> ''0''" "toLowerCase (c_erc20 claim) = ethAddress e"
      "c_merkleRoot claim \<noteq> HashZero" "MINT_FEE_MERKLE e ext = Some fee"
      "fetchMetadata e (metadataUrl (toString iid)) = Some treeId"
      "rs = [r]" "r = mint1155Allowlist e coll tok ext (toString iid) claim fee treeId"
  | (Index_Public) ext cfg where
      "try1155 e coll tok ext = None"
      "snd (resolveClaimConfig e coll ci ext) = Some cfg"
      "cc_merkleRoot cfg = HashZero"
      "rs = [r]" "r = mint721Public e coll tok ext ci cfg"
  | (Index_Allowlist) ext cfg treeId where
      "try1155 e coll tok ext = None"
      "snd (resolveClaimConfig e coll ci ext) = Some cfg"
      "cc_merkleRoot cfg \<noteq> HashZero"
      "fetchMetadata e (metadataUrl (interp ci)) = Some treeId"
      "rs = [r]" "r = mint721Allowlist e coll ext ci cfg treeId"
proof -
  from assms obtain ext where ext: "extractExtension e coll tok ci ext = Inr (Some rs)"
    using extractByCollection_Inr by fastforce
  show thesis
  proof (cases "try1155 e coll tok ext")
    case (Some rs')
    with ext have eq: "rs' = rs"
      by (simp add: extractExtension_def)
    from Some [unfolded eq] show thesis
    proof (cases rule: try1155_cases)
      case (Token_Public iid claim fee)
      with assms(2) show ?thesis
        using that(1) [of ext iid claim fee] by simp
    next
      case (Token_Allowlist iid claim fee treeId)
      with assms(2) show ?thesis
        using that(2) [of ext iid claim fee treeId] by simp
    qed
  next
    case None
    with ext have "try721 e coll tok ci ext = Inr (Some rs)"
      by (simp add: extractExtension_def)
    then show thesis
    proof (cases rule: try721_cases)
      case (Index_Public cfg)
      with assms(2) None show ?thesis
        using that(3) [of ext cfg] by simp
    next
      case (Index_Allowlist cfg treeId)
      with assms(2) None show ?thesis
        using that(4) [of ext cfg treeId] by simp
    qed
  qed
qed

lemma forExtensions_first:
  "forExtensions e coll tok ci exts = Inr (Some rs) \<Longrightarrow>
   \<exists>pre ext post. exts = pre @ ext # post \<and>
     (\<forall>x \<in> set pre. extractExtension e coll tok ci x = Inr None) \<and>
     extractExtension e coll tok ci ext = Inr (Some rs)"
proof (induction exts)
  case Nil
  then show ?case by simp
next
  case (Cons a exts)
  show ?case
  proof (cases "extractExtension e coll tok ci a")
    case (Inl err)
    with Cons.prems show ?thesis by simp
  next
    case (Inr res)
    show ?thesis
    proof (cases res)
      case None
      with Inr Cons.prems have "forExtensions e coll tok ci exts = Inr (Some rs)"
        by simp
      from Cons.IH [OF this] obtain pre ext post where
        "exts = pre @ ext # post"
        "\<forall>x \<in> set pre. extractExtension e coll tok ci x = Inr None"
        "extractExtension e coll tok ci ext = Inr (Some rs)"
        by blast
      with Inr None have "a # exts = (a # pre) @ ext # post \<and>
          (\<forall>x \<in> set (a # pre). extractExtension e coll tok ci x = Inr None) \<and>
          extractExtension e coll tok ci ext = Inr (Some rs)"
        by simp
      then show ?thesis by blast
    next
      case (Some rs')
      with Inr Cons.prems have "rs' = rs"
        by simp
      with Inr Some have "a # exts = [] @ a # exts \<and>
          (\<forall>x \<in> set []. extractExtension e coll tok ci x = Inr None) \<and>
          extractExtension e coll tok ci a = Inr (Some rs)"
        by simp
      then show ?thesis by blast
    qed
  qed
qed

text \<open>
  A returned record is the record of the first extension, in the order tried, whose ladder
  returns one.
\<close>

lemma extractByCollection_first:
  assumes "extractByCollection e coll tok extension ci = Inr rs" and "r \<in> set rs"
  obtains pre ext post where
    "resolveExtensions e coll extension = Some (pre @ ext # post)"
    "\<forall>x \<in> set pre. extractExtension e coll tok ci x = Inr None"
    "extractExtension e coll tok ci ext = Inr (Some [r])"
proof -
  from assms have single: "rs = [r]"
    by (cases rule: extractByCollection_cases)
  from assms(1) obtain exts where exts: "resolveExtensions e coll extension = Some exts"
    by (cases "resolveExtensions e coll extension") (simp_all add: extractByCollection_def)
  have "forExtensions e coll tok ci exts = Inr (Some rs)"
  proof (cases "forExtensions e coll tok ci exts")
    case (Inl err)
    with assms(1) exts show ?thesis
      by (simp add: extractByCollection_def)
  next
    case (Inr res)
    show ?thesis
    proof (cases res)
      case None
      with Inr assms(1) exts have "rs = []"
        by (simp add: extractByCollection_def)
      with assms(2) show ?thesis by simp
    next
      case (Some rs')
      with Inr assms(1) exts show ?thesis
        by (simp add: extractByCollection_def)
    qed
  qed
  from forExtensions_first [OF this] single exts that show thesis
    by blast
qed

text \<open>
  The claim a record of one extension is built from: the per-token claim when the first block
  returns; otherwise the newer shape when its claim and both fees are read; otherwise the older
  shape, which needs a non-empty claim index.
\<close>

lemma extractExtension_source:
  assumes "extractExtension e coll tok ci ext = Inr (Some [r])"
  obtains (Token) iid claim fee where
      "try1155 e coll tok ext = Some [r]"
      "getClaimForToken e ext coll tok = Some (iid, claim)"
      "toString iid \<noteq> ''0''" "toLowerCase (c_erc20 claim) = ethAddress e"
      "(c_merkleRoot claim = HashZero \<and> MINT_FEE e ext = Some fee \<and>
          r = mint1155Public e coll tok ext (toString iid) claim fee) \<or>
       (c_merkleRoot claim \<noteq> HashZero \<and> MINT_FEE_MERKLE e ext = Some fee \<and>
          (\<exists>treeId. r = mint1155Allowlist e coll tok ext (toString iid) claim fee treeId))"
  | (Newer) claim f fm where
      "try1155 e coll tok ext = None"
      "getClaimV2 e ext coll ci = Some claim" "MINT_FEE e ext = Some f"
      "MINT_FEE_MERKLE e ext = Some fm"
      "(v1_merkleRoot claim = HashZero \<and>
          r = mint721Public e coll tok ext ci (claimConfigV2 claim f fm)) \<or>
       (v1_merkleRoot claim \<noteq> HashZero \<and>
          (\<exists>treeId. r = mint721Allowlist e coll ext ci (claimConfigV2 claim f fm) treeId))"
  | (Older) i claim where
      "try1155 e coll tok ext = None"
      "getClaimV2 e ext coll ci = None \<or> MINT_FEE e ext = None \<or> MINT_FEE_MERKLE e ext = None"
      "ci = Some i" "i \<noteq> []" "getClaimV1 e ext coll i = Some claim"
      "(v1_merkleRoot claim = HashZero \<and>
          r = mint721Public e coll tok ext ci (claimConfigV1 e claim)) \<or>
       (v1_merkleRoot claim \<noteq> HashZero \<and>
          (\<exists>treeId. r = mint721Allowlist e coll ext ci (claimConfigV1 e claim) treeId))"
proof (cases "try1155 e coll tok ext")
  case (Some rs')
  with assms have t: "try1155 e coll tok ext = Some [r]"
    by (simp add: extractExtension_def)
  then show thesis
  proof (cases rule: try1155_cases)
    case (Token_Public iid claim fee)
    with t show ?thesis
      using Token [of iid claim fee] by simp
  next
    case (Token_Allowlist iid claim fee treeId)
    with t show ?thesis
      using Token [of iid claim fee] by auto
  qed
next
  case None
  with assms have t: "try721 e coll tok ci ext = Inr (Some [r])"
    by (simp add: extractExtension_def)
  then show thesis
  proof (cases rule: try721_cases)
    case (Index_Public cfg)
    from Index_Public(1) show ?thesis
    proof (cases rule: resolveClaimConfig_cases)
      case (Newer claim f fm)
      with None Index_Public show ?thesis
        using that(2) [of claim f fm] by simp
    next
      case (Older i claim)
      with None Index_Public show ?thesis
        using that(3) [of i claim] by (simp add: truthy_def)
    qed
  next
    case (Index_Allowlist cfg treeId)
    from Index_Allowlist(1) show ?thesis
    proof (cases rule: resolveClaimConfig_cases)
      case (Newer claim f fm)
      with None Index_Allowlist show ?thesis
        using that(2) [of claim f fm] by auto
    next
      case (Older i claim)
      with None Index_Allowlist show ?thesis
        using that(3) [of i claim] by (auto simp: truthy_def)
    qed
  qed
qed

subsection \<open>Evaluation on the example chains\<close>

lemma lower_e1: "toLowerCase ''0xe1'' = ''0xe1''"
  unfolding toLowerCase_def lowerChar_def by code_simp

lemma lower_exEth: "toLowerCase exEth = exEth"
  unfolding toLowerCase_def lowerChar_def exEth_def by code_simp

lemma exRoot_nonzero: "exRoot \<noteq> HashZero"
  by (simp add: exRoot_def HashZero_def)

lemmas extract_defs =
  extractByCollection_def resolveExtensions_def extractExtension_def try1155_def try721_def resolveClaimConfig_def
  tryClaimV1_def tryClaimV2_def truthy_def

lemmas ex_defs =
  exEnv_def exEnvToken_def exEnvV1_def exEnvV2_def exClaim1155_def exClaimV1_def exClaimV2_def

lemma ex_token_public:
  "extractByCollection (exEnvToken HashZero) ''0xc1'' ''1'' None None =
   Inr [mint1155Public (exEnvToken HashZero) ''0xc1'' ''1'' ''0xe1'' ''7''
          (exClaim1155 HashZero) 5]"
  by (simp add: extract_defs ex_defs toString_eval lower_exEth)

lemma ex_token_allowlist:
  "extractByCollection (exEnvToken exRoot) ''0xc1'' ''1'' None None =
   Inr [mint1155Allowlist (exEnvToken exRoot) ''0xc1'' ''1'' ''0xe1'' ''7''
          (exClaim1155 exRoot) 9 (Some ''tree-1'')]"
  by (simp add: extract_defs ex_defs toString_eval lower_exEth exRoot_nonzero)

lemma ex_v1_public:
  "extractByCollection (exEnvV1 HashZero) ''0xc1'' ''1'' None (Some ''3'') =
   Inr [mint721Public (exEnvV1 HashZero) ''0xc1'' ''1'' ''0xe1'' (Some ''3'')
          (claimConfigV1 (exEnvV1 HashZero) (exClaimV1 HashZero))]"
  by (simp add: extract_defs ex_defs)

lemma ex_v2_public:
  "extractByCollection (exEnvV2 HashZero) ''0xc1'' ''1'' None (Some ''3'') =
   Inr [mint721Public (exEnvV2 HashZero) ''0xc1'' ''1'' ''0xe1'' (Some ''3'')
          (claimConfigV2 (exClaimV2 HashZero) 5 9)]"
  by (simp add: extract_defs ex_defs)

lemma ex_v2_allowlist:
  "extractByCollection (exEnvV2 exRoot) ''0xc1'' ''1'' None (Some ''3'') =
   Inr [mint721Allowlist (exEnvV2 exRoot) ''0xc1'' ''0xe1'' (Some ''3'')
          (claimConfigV2 (exClaimV2 exRoot) 5 9) (Some ''tree-1'')]"
  by (simp add: extract_defs ex_defs exRoot_nonzero)

lemma ex_second_public:
  "extractByCollection (exEnvSecond HashZero) ''0xc1'' ''1'' None (Some ''3'') =
   Inr [mint721Public (exEnvSecond HashZero) ''0xc1'' ''1'' ''0xe1'' (Some ''3'')
          (claimConfigV2 (exClaimV2 HashZero) 5 9)]"
  by (simp add: extract_defs exEnvSecond_def ex_defs)

lemma ex_second_allowlist:
  "extractByCollection (exEnvSecond exRoot) ''0xc1'' ''1'' None (Some ''3'') =
   Inr [mint721Allowlist (exEnvSecond exRoot) ''0xc1'' ''0xe1'' (Some ''3'')
          (claimConfigV2 (exClaimV2 exRoot) 5 9) (Some ''tree-1'')]"
  by (simp add: extract_defs exEnvSecond_def ex_defs exRoot_nonzero)

subsection \<open>Sale kind and Merkle root\<close>

text \<open>
  C2. A record \<open>extractByCollection\<close> returns is the record of the first extension whose
  ladder returns one, and it is built from one claim of that extension: the per-token claim
  when the first block returns, else the newer claim-index shape when its claim and both fees
  are read, else the older shape. The record is public exactly when the Merkle root of that
  claim is the zero hash and allowlist otherwise, and its \<open>allowlistId\<close> is that root on an
  allowlist record and unset on a public one.
\<close>

theorem kind_follows_merkle_root:
  assumes "extractByCollection e coll tok extension ci = Inr rs" and "r \<in> set rs"
  shows "\<exists>pre ext post root.
           resolveExtensions e coll extension = Some (pre @ ext # post) \<and>
           (\<forall>x \<in> set pre. extractExtension e coll tok ci x = Inr None) \<and>
           extractExtension e coll tok ci ext = Inr (Some [r]) \<and>
           kind r = (if root = HashZero then Public else Allowlist) \<and>
           allowlistId r = (if root = HashZero then None else Some root) \<and>
           ((\<exists>iid claim.
                try1155 e coll tok ext = Some [r] \<and>
                getClaimForToken e ext coll tok = Some (iid, claim) \<and>
                toString iid \<noteq> ''0'' \<and> toLowerCase (c_erc20 claim) = ethAddress e \<and>
                root = c_merkleRoot claim) \<or>
            (\<exists>claim f fm.
                try1155 e coll tok ext = None \<and>
                getClaimV2 e ext coll ci = Some claim \<and> MINT_FEE e ext = Some f \<and>
                MINT_FEE_MERKLE e ext = Some fm \<and>
                root = v1_merkleRoot claim) \<or>
            (\<exists>i claim.
                try1155 e coll tok ext = None \<and>
                (getClaimV2 e ext coll ci = None \<or> MINT_FEE e ext = None \<or>
                 MINT_FEE_MERKLE e ext = None) \<and>
                ci = Some i \<and> i \<noteq> [] \<and> getClaimV1 e ext coll i = Some claim \<and>
                root = v1_merkleRoot claim))"
proof -
  from assms obtain pre ext post where
    exts: "resolveExtensions e coll extension = Some (pre @ ext # post)"
    and pre: "\<forall>x \<in> set pre. extractExtension e coll tok ci x = Inr None"
    and ext: "extractExtension e coll tok ci ext = Inr (Some [r])"
    by (rule extractByCollection_first)
  from ext show ?thesis
  proof (cases rule: extractExtension_source)
    case (Token iid claim fee)
    from Token(5) have
      "kind r = (if c_merkleRoot claim = HashZero then Public else Allowlist)"
      "allowlistId r = (if c_merkleRoot claim = HashZero then None else Some (c_merkleRoot claim))"
      by (auto simp: mint_defs)
    with exts pre ext Token(1-4) show ?thesis
      by blast
  next
    case (Newer claim f fm)
    from Newer(5) have
      "kind r = (if v1_merkleRoot claim = HashZero then Public else Allowlist)"
      "allowlistId r =
        (if v1_merkleRoot claim = HashZero then None else Some (v1_merkleRoot claim))"
      by (auto simp: mint_defs)
    with exts pre ext Newer(1-4) show ?thesis
      by blast
  next
    case (Older i claim)
    from Older(6) have
      "kind r = (if v1_merkleRoot claim = HashZero then Public else Allowlist)"
      "allowlistId r =
        (if v1_merkleRoot claim = HashZero then None else Some (v1_merkleRoot claim))"
      by (auto simp: mint_defs)
    with exts pre ext Older(1-5) show ?thesis
      by blast
  qed
qed

text \<open>
  A per-token claim with a non-zero root gives an allowlist record with that root; a newer
  collection-wide claim with the zero root, on the second of two extensions, gives a public
  record without \<open>allowlistId\<close>.
\<close>

theorem kind_follows_merkle_root_witness:
  "extractByCollection (exEnvToken exRoot) ''0xc1'' ''1'' None None =
     Inr [mint1155Allowlist (exEnvToken exRoot) ''0xc1'' ''1'' ''0xe1'' ''7''
            (exClaim1155 exRoot) 9 (Some ''tree-1'')] \<and>
   kind (mint1155Allowlist (exEnvToken exRoot) ''0xc1'' ''1'' ''0xe1'' ''7''
            (exClaim1155 exRoot) 9 (Some ''tree-1'')) = Allowlist \<and>
   allowlistId (mint1155Allowlist (exEnvToken exRoot) ''0xc1'' ''1'' ''0xe1'' ''7''
            (exClaim1155 exRoot) 9 (Some ''tree-1'')) = Some exRoot \<and>
   extractByCollection (exEnvSecond HashZero) ''0xc1'' ''1'' None (Some ''3'') =
     Inr [mint721Public (exEnvSecond HashZero) ''0xc1'' ''1'' ''0xe1'' (Some ''3'')
            (claimConfigV2 (exClaimV2 HashZero) 5 9)] \<and>
   kind (mint721Public (exEnvSecond HashZero) ''0xc1'' ''1'' ''0xe1'' (Some ''3'')
            (claimConfigV2 (exClaimV2 HashZero) 5 9)) = Public \<and>
   allowlistId (mint721Public (exEnvSecond HashZero) ''0xc1'' ''1'' ''0xe1'' (Some ''3'')
            (claimConfigV2 (exClaimV2 HashZero) 5 9)) = None \<and>
   (\<exists>root.
      kind (mint1155Allowlist (exEnvToken exRoot) ''0xc1'' ''1'' ''0xe1'' ''7''
              (exClaim1155 exRoot) 9 (Some ''tree-1'')) =
        (if root = HashZero then Public else Allowlist) \<and>
      allowlistId (mint1155Allowlist (exEnvToken exRoot) ''0xc1'' ''1'' ''0xe1'' ''7''
              (exClaim1155 exRoot) 9 (Some ''tree-1'')) =
        (if root = HashZero then None else Some root)) \<and>
   (\<exists>root.
      kind (mint721Public (exEnvSecond HashZero) ''0xc1'' ''1'' ''0xe1'' (Some ''3'')
              (claimConfigV2 (exClaimV2 HashZero) 5 9)) =
        (if root = HashZero then Public else Allowlist) \<and>
      allowlistId (mint721Public (exEnvSecond HashZero) ''0xc1'' ''1'' ''0xe1'' (Some ''3'')
              (claimConfigV2 (exClaimV2 HashZero) 5 9)) =
        (if root = HashZero then None else Some root))"
proof -
  let ?a = "mint1155Allowlist (exEnvToken exRoot) ''0xc1'' ''1'' ''0xe1'' ''7''
              (exClaim1155 exRoot) 9 (Some ''tree-1'')"
  let ?b = "mint721Public (exEnvSecond HashZero) ''0xc1'' ''1'' ''0xe1'' (Some ''3'')
              (claimConfigV2 (exClaimV2 HashZero) 5 9)"
  have ha: "extractByCollection (exEnvToken exRoot) ''0xc1'' ''1'' None None = Inr [?a]"
    by (rule ex_token_allowlist)
  have hb: "extractByCollection (exEnvSecond HashZero) ''0xc1'' ''1'' None (Some ''3'') =
      Inr [?b]"
    by (rule ex_second_public)
  have va: "kind ?a = Allowlist" "allowlistId ?a = Some exRoot"
    by (simp_all add: mint_defs exClaim1155_def)
  have vb: "kind ?b = Public" "allowlistId ?b = None"
    by (simp_all add: mint_defs)
  have ma: "?a \<in> set [?a]" and mb: "?b \<in> set [?b]"
    by simp_all
  have a: "\<exists>root. kind ?a = (if root = HashZero then Public else Allowlist) \<and>
      allowlistId ?a = (if root = HashZero then None else Some root)"
    using kind_follows_merkle_root [OF ha ma] by (elim exE conjE) (intro exI conjI)
  have b: "\<exists>root. kind ?b = (if root = HashZero then Public else Allowlist) \<and>
      allowlistId ?b = (if root = HashZero then None else Some root)"
    using kind_follows_merkle_root [OF hb mb] by (elim exE conjE) (intro exI conjI)
  from ha hb va vb a b show ?thesis
    by simp
qed

subsection \<open>Shape and status of the result\<close>

lemma getStatus_irrelevant_step:
  "extractExtension (e\<lparr>getStatus := g\<rparr>) coll tok ci ext = extractExtension e coll tok ci ext"
proof -
  have m: "mint1155Public (e\<lparr>getStatus := g\<rparr>) = mint1155Public e"
    "mint1155Allowlist (e\<lparr>getStatus := g\<rparr>) = mint1155Allowlist e"
    "mint721Public (e\<lparr>getStatus := g\<rparr>) = mint721Public e"
    "mint721Allowlist (e\<lparr>getStatus := g\<rparr>) = mint721Allowlist e"
    "claimConfigV1 (e\<lparr>getStatus := g\<rparr>) = claimConfigV1 e"
    by (simp_all add: fun_eq_iff mint_defs claimConfigV1_def)
  have "try1155 (e\<lparr>getStatus := g\<rparr>) coll tok ext = try1155 e coll tok ext"
    by (simp add: try1155_def m cong: option.case_cong if_cong)
  moreover have "resolveClaimConfig (e\<lparr>getStatus := g\<rparr>) coll ci ext =
      resolveClaimConfig e coll ci ext"
    by (simp add: resolveClaimConfig_def tryClaimV1_def tryClaimV2_def m
        cong: option.case_cong if_cong)
  then have "try721 (e\<lparr>getStatus := g\<rparr>) coll tok ci ext = try721 e coll tok ci ext"
    by (simp add: try721_def m cong: option.case_cong if_cong)
  ultimately show ?thesis
    by (simp add: extractExtension_def cong: option.case_cong)
qed

lemma getStatus_irrelevant_loop:
  "forExtensions (e\<lparr>getStatus := g\<rparr>) coll tok ci exts = forExtensions e coll tok ci exts"
  by (induction exts) (simp_all add: getStatus_irrelevant_step cong: sum.case_cong option.case_cong)

lemma getStatus_irrelevant:
  "extractByCollection (e\<lparr>getStatus := g\<rparr>) coll tok extension ci =
   extractByCollection e coll tok extension ci"
  by (simp add: extractByCollection_def resolveExtensions_def getStatus_irrelevant_loop
      cong: sum.case_cong option.case_cong if_cong)

text \<open>
  C10. Whenever \<open>extractByCollection\<close> returns, the result is empty or a single record; every
  returned record is open with no status reason; and the result is the same whatever
  \<open>getStatus\<close> answers, or whether it answers at all.
\<close>

theorem extractByCollection_at_most_one_open:
  assumes "extractByCollection e coll tok extension ci = Inr rs"
  shows "(rs = [] \<or> (\<exists>r. rs = [r])) \<and>
         (\<forall>r \<in> set rs. status r = Open \<and> statusReason r = None) \<and>
         (\<forall>g. extractByCollection (e\<lparr>getStatus := g\<rparr>) coll tok extension ci = Inr rs)"
proof -
  have shape: "rs = [] \<or> (\<exists>r. rs = [r])"
  proof (cases rs)
    case Nil
    then show ?thesis by simp
  next
    case (Cons r rest)
    then have "r \<in> set rs" by simp
    with assms show ?thesis
      by (cases rule: extractByCollection_cases) auto
  qed
  have "status r = Open \<and> statusReason r = None" if "r \<in> set rs" for r
    using assms that by (cases rule: extractByCollection_cases) (simp_all add: mint_defs)
  moreover have "extractByCollection (e\<lparr>getStatus := g\<rparr>) coll tok extension ci = Inr rs" for g
    using assms by (simp add: getStatus_irrelevant)
  ultimately show ?thesis
    using shape by blast
qed

theorem extractByCollection_at_most_one_open_witness:
  "extractByCollection (exEnvToken HashZero) ''0xc1'' ''1'' None None =
     Inr [mint1155Public (exEnvToken HashZero) ''0xc1'' ''1'' ''0xe1'' ''7''
            (exClaim1155 HashZero) 5] \<and>
   getStatus (exEnvToken HashZero)
     (mint1155Public (exEnvToken HashZero) ''0xc1'' ''1'' ''0xe1'' ''7''
        (exClaim1155 HashZero) 5) = Some (Closed, Some ''ended'') \<and>
   status (mint1155Public (exEnvToken HashZero) ''0xc1'' ''1'' ''0xe1'' ''7''
            (exClaim1155 HashZero) 5) = Open \<and>
   statusReason (mint1155Public (exEnvToken HashZero) ''0xc1'' ''1'' ''0xe1'' ''7''
            (exClaim1155 HashZero) 5) = None"
proof -
  let ?r = "mint1155Public (exEnvToken HashZero) ''0xc1'' ''1'' ''0xe1'' ''7''
              (exClaim1155 HashZero) 5"
  have h: "extractByCollection (exEnvToken HashZero) ''0xc1'' ''1'' None None = Inr [?r]"
    by (rule ex_token_public)
  have g: "getStatus (exEnvToken HashZero) ?r = Some (Closed, Some ''ended'')"
    by (simp add: ex_defs)
  from extractByCollection_at_most_one_open [OF h] h g show ?thesis
    by simp
qed

subsection \<open>Price\<close>

text \<open>
  C1, as the code has it. A record \<open>extractByCollection\<close> returns is the record of the first
  extension whose ladder returns one, and it is built from one claim of that extension. Its price
  is the decimal string of that claim's cost plus a fee. When the record is built from the
  per-token claim (non-zero instance id, native currency) or from the newer claim-index shape
  (its claim and both fees are read), the fee is the one read from the extension:
  \<open>MINT_FEE\<close> on a public record, \<open>MINT_FEE_MERKLE\<close> on an allowlist record. When it is built
  from the older claim-index shape, which happens only when a read of the newer shape fails, no
  fee is read and the fee is 0. The price is the bare cost exactly when the fee is 0.
\<close>

theorem price_is_cost_plus_fee:
  assumes "extractByCollection e coll tok extension ci = Inr rs" and "r \<in> set rs"
  shows "\<exists>pre ext post cost fee.
           resolveExtensions e coll extension = Some (pre @ ext # post) \<and>
           (\<forall>x \<in> set pre. extractExtension e coll tok ci x = Inr None) \<and>
           extractExtension e coll tok ci ext = Inr (Some [r]) \<and>
           price r = toString (cost + fee) \<and>
           (price r = toString cost \<longleftrightarrow> fee = 0) \<and>
           ((\<exists>iid claim.
                try1155 e coll tok ext = Some [r] \<and>
                getClaimForToken e ext coll tok = Some (iid, claim) \<and>
                toString iid \<noteq> ''0'' \<and> toLowerCase (c_erc20 claim) = ethAddress e \<and>
                kind r = (if c_merkleRoot claim = HashZero then Public else Allowlist) \<and>
                cost = c_cost claim \<and>
                (if kind r = Public then MINT_FEE e ext else MINT_FEE_MERKLE e ext) = Some fee) \<or>
            (\<exists>claim f fm.
                try1155 e coll tok ext = None \<and>
                getClaimV2 e ext coll ci = Some claim \<and> MINT_FEE e ext = Some f \<and>
                MINT_FEE_MERKLE e ext = Some fm \<and>
                kind r = (if v1_merkleRoot claim = HashZero then Public else Allowlist) \<and>
                cost = v1_cost claim \<and> fee = (if kind r = Public then f else fm)) \<or>
            (\<exists>i claim.
                try1155 e coll tok ext = None \<and>
                (getClaimV2 e ext coll ci = None \<or> MINT_FEE e ext = None \<or>
                 MINT_FEE_MERKLE e ext = None) \<and>
                ci = Some i \<and> i \<noteq> [] \<and> getClaimV1 e ext coll i = Some claim \<and>
                cost = v1_cost claim \<and> fee = 0))"
proof -
  have bare: "(toString (c + f) = toString c) = (f = 0)" for c f :: nat
    using toString_inj [of "c + f" c] by auto
  from assms obtain pre ext post where
    exts: "resolveExtensions e coll extension = Some (pre @ ext # post)"
    and pre: "\<forall>x \<in> set pre. extractExtension e coll tok ci x = Inr None"
    and ext: "extractExtension e coll tok ci ext = Inr (Some [r])"
    by (rule extractByCollection_first)
  from ext show ?thesis
  proof (cases rule: extractExtension_source)
    case (Token iid claim fee)
    from Token(5) have p: "price r = toString (c_cost claim + fee)"
      and k: "kind r = (if c_merkleRoot claim = HashZero then Public else Allowlist)"
      and f: "(if kind r = Public then MINT_FEE e ext else MINT_FEE_MERKLE e ext) = Some fee"
      by (auto simp: mint_defs)
    from p have "(price r = toString (c_cost claim)) = (fee = 0)"
      by (simp add: bare)
    with exts pre ext Token(1-4) p k f show ?thesis
      by blast
  next
    case (Newer claim f fm)
    define fee where "fee = (if kind r = Public then f else fm)"
    from Newer(5) have k: "kind r = (if v1_merkleRoot claim = HashZero then Public else Allowlist)"
      by (auto simp: mint_defs)
    from Newer(5) have p: "price r = toString (v1_cost claim + fee)"
      unfolding fee_def by (auto simp: mint_defs bn_toString)
    then have q: "(price r = toString (v1_cost claim)) = (fee = 0)"
      by (simp add: bare)
    have d: "(\<exists>iid claim'.
                try1155 e coll tok ext = Some [r] \<and>
                getClaimForToken e ext coll tok = Some (iid, claim') \<and>
                toString iid \<noteq> ''0'' \<and> toLowerCase (c_erc20 claim') = ethAddress e \<and>
                kind r = (if c_merkleRoot claim' = HashZero then Public else Allowlist) \<and>
                v1_cost claim = c_cost claim' \<and>
                (if kind r = Public then MINT_FEE e ext else MINT_FEE_MERKLE e ext) = Some fee) \<or>
            (\<exists>claim' f fm.
                try1155 e coll tok ext = None \<and>
                getClaimV2 e ext coll ci = Some claim' \<and> MINT_FEE e ext = Some f \<and>
                MINT_FEE_MERKLE e ext = Some fm \<and>
                kind r = (if v1_merkleRoot claim' = HashZero then Public else Allowlist) \<and>
                v1_cost claim = v1_cost claim' \<and> fee = (if kind r = Public then f else fm)) \<or>
            (\<exists>i claim'.
                try1155 e coll tok ext = None \<and>
                (getClaimV2 e ext coll ci = None \<or> MINT_FEE e ext = None \<or>
                 MINT_FEE_MERKLE e ext = None) \<and>
                ci = Some i \<and> i \<noteq> [] \<and> getClaimV1 e ext coll i = Some claim' \<and>
                v1_cost claim = v1_cost claim' \<and> fee = 0)"
      using Newer(1-4) k fee_def
      by (intro disjI2 disjI1 exI [of _ claim] exI [of _ f] exI [of _ fm]) simp
    show ?thesis
      by (rule exI [of _ pre], rule exI [of _ ext], rule exI [of _ post],
          rule exI [of _ "v1_cost claim"], rule exI [of _ fee], intro conjI)
        (fact exts pre ext p q d)+
  next
    case (Older i claim)
    from Older(6) have p: "price r = toString (v1_cost claim + 0)"
      by (auto simp: mint_defs bn_toString bn_zero)
    then have "(price r = toString (v1_cost claim)) = ((0::nat) = 0)"
      by simp
    with exts pre ext Older(1-5) p show ?thesis
      by blast
  qed
qed

text \<open>
  The scenario of the specification: cost 100 and flat fee 5 give the price 105. On the second
  of two extensions, the newer collection-wide claim with a non-zero root and the Merkle fee 9
  gives the price 109.
\<close>

theorem price_is_cost_plus_fee_witness:
  "extractByCollection (exEnvToken HashZero) ''0xc1'' ''1'' None None =
     Inr [mint1155Public (exEnvToken HashZero) ''0xc1'' ''1'' ''0xe1'' ''7''
            (exClaim1155 HashZero) 5] \<and>
   price (mint1155Public (exEnvToken HashZero) ''0xc1'' ''1'' ''0xe1'' ''7''
            (exClaim1155 HashZero) 5) = ''105'' \<and>
   extractByCollection (exEnvSecond exRoot) ''0xc1'' ''1'' None (Some ''3'') =
     Inr [mint721Allowlist (exEnvSecond exRoot) ''0xc1'' ''0xe1'' (Some ''3'')
            (claimConfigV2 (exClaimV2 exRoot) 5 9) (Some ''tree-1'')] \<and>
   price (mint721Allowlist (exEnvSecond exRoot) ''0xc1'' ''0xe1'' (Some ''3'')
            (claimConfigV2 (exClaimV2 exRoot) 5 9) (Some ''tree-1'')) = ''109'' \<and>
   (\<exists>cost fee.
      price (mint1155Public (exEnvToken HashZero) ''0xc1'' ''1'' ''0xe1'' ''7''
               (exClaim1155 HashZero) 5) = toString (cost + fee)) \<and>
   (\<exists>cost fee.
      price (mint721Allowlist (exEnvSecond exRoot) ''0xc1'' ''0xe1'' (Some ''3'')
               (claimConfigV2 (exClaimV2 exRoot) 5 9) (Some ''tree-1'')) = toString (cost + fee))"
proof -
  let ?a = "mint1155Public (exEnvToken HashZero) ''0xc1'' ''1'' ''0xe1'' ''7''
              (exClaim1155 HashZero) 5"
  let ?b = "mint721Allowlist (exEnvSecond exRoot) ''0xc1'' ''0xe1'' (Some ''3'')
              (claimConfigV2 (exClaimV2 exRoot) 5 9) (Some ''tree-1'')"
  have ha: "extractByCollection (exEnvToken HashZero) ''0xc1'' ''1'' None None = Inr [?a]"
    by (rule ex_token_public)
  have hb: "extractByCollection (exEnvSecond exRoot) ''0xc1'' ''1'' None (Some ''3'') = Inr [?b]"
    by (rule ex_second_allowlist)
  have pa: "price ?a = ''105''"
    by (simp add: mint_defs ex_defs toString_eval)
  have pb: "price ?b = ''109''"
    by (simp add: mint_defs bn_toString exClaimV2_def) (simp add: toString_eval)
  have ma: "?a \<in> set [?a]" and mb: "?b \<in> set [?b]"
    by simp_all
  have a: "\<exists>cost fee. price ?a = toString (cost + fee)"
    using price_is_cost_plus_fee [OF ha ma] by (elim exE conjE) (intro exI)
  have b: "\<exists>cost fee. price ?b = toString (cost + fee)"
    using price_is_cost_plus_fee [OF hb mb] by (elim exE conjE) (intro exI)
  from ha hb pa pb a b show ?thesis
    by simp
qed

text \<open>
  C1 as it is written fails on the older claim-index shape: the extension's \<open>MINT_FEE\<close> is 5,
  the claim's cost is 100, and the returned price is the bare cost 100.
\<close>

theorem price_older_shape_is_bare_cost:
  "extractByCollection (exEnvV1 HashZero) ''0xc1'' ''1'' None (Some ''3'') =
     Inr [mint721Public (exEnvV1 HashZero) ''0xc1'' ''1'' ''0xe1'' (Some ''3'')
            (claimConfigV1 (exEnvV1 HashZero) (exClaimV1 HashZero))] \<and>
   kind (mint721Public (exEnvV1 HashZero) ''0xc1'' ''1'' ''0xe1'' (Some ''3'')
            (claimConfigV1 (exEnvV1 HashZero) (exClaimV1 HashZero))) = Public \<and>
   getClaimV1 (exEnvV1 HashZero) ''0xe1'' ''0xc1'' ''3'' = Some (exClaimV1 HashZero) \<and>
   v1_cost (exClaimV1 HashZero) = 100 \<and>
   MINT_FEE (exEnvV1 HashZero) ''0xe1'' = Some 5 \<and>
   price (mint721Public (exEnvV1 HashZero) ''0xc1'' ''1'' ''0xe1'' (Some ''3'')
            (claimConfigV1 (exEnvV1 HashZero) (exClaimV1 HashZero))) = toString 100 \<and>
   toString 100 \<noteq> toString (100 + 5)"
proof -
  have "toString 100 \<noteq> toString (100 + 5)"
    using toString_inj [of 100 "100 + 5"] by auto
  moreover have "price (mint721Public (exEnvV1 HashZero) ''0xc1'' ''1'' ''0xe1'' (Some ''3'')
            (claimConfigV1 (exEnvV1 HashZero) (exClaimV1 HashZero))) = toString 100"
    by (simp add: mint_defs bn_toString bn_zero) (simp add: ex_defs)
  ultimately show ?thesis
    using ex_v1_public by (simp add: mint_defs) (simp add: ex_defs)
qed

subsection \<open>Normalisation of dates and caps\<close>

text \<open>
  C7. A record \<open>extractByCollection\<close> returns is the record of the first extension whose
  ladder returns one, and it is built from one claim of that extension: the per-token claim, else
  the newer claim-index shape, else the older one. A start or end date of 0 in that claim gives
  an absent \<open>startTime\<close> or \<open>endTime\<close>, any other date gives that same number; a wallet or
  total cap of 0 gives an absent \<open>maxMintsPerWallet\<close> or \<open>maxSupply\<close>, any other cap gives
  its decimal string. So a time is never 0 and a cap is never the string 0.
\<close>

theorem dates_and_caps_normalised:
  assumes "extractByCollection e coll tok extension ci = Inr rs" and "r \<in> set rs"
  shows "\<exists>pre ext post startDate endDate walletMax totalMax.
           resolveExtensions e coll extension = Some (pre @ ext # post) \<and>
           (\<forall>x \<in> set pre. extractExtension e coll tok ci x = Inr None) \<and>
           extractExtension e coll tok ci ext = Inr (Some [r]) \<and>
           startTime r = (if startDate = 0 then None else Some startDate) \<and>
           endTime r = (if endDate = 0 then None else Some endDate) \<and>
           maxMintsPerWallet r = (if walletMax = 0 then None else Some (toString walletMax)) \<and>
           maxSupply r = (if totalMax = 0 then None else Some (toString totalMax)) \<and>
           startTime r \<noteq> Some 0 \<and> endTime r \<noteq> Some 0 \<and>
           maxMintsPerWallet r \<noteq> Some ''0'' \<and> maxSupply r \<noteq> Some ''0'' \<and>
           ((\<exists>iid claim.
                try1155 e coll tok ext = Some [r] \<and>
                getClaimForToken e ext coll tok = Some (iid, claim) \<and>
                toString iid \<noteq> ''0'' \<and> toLowerCase (c_erc20 claim) = ethAddress e \<and>
                startDate = c_startDate claim \<and> endDate = c_endDate claim \<and>
                walletMax = c_walletMax claim \<and> totalMax = c_totalMax claim) \<or>
            (\<exists>claim f fm.
                try1155 e coll tok ext = None \<and>
                getClaimV2 e ext coll ci = Some claim \<and> MINT_FEE e ext = Some f \<and>
                MINT_FEE_MERKLE e ext = Some fm \<and>
                startDate = v1_startDate claim \<and> endDate = v1_endDate claim \<and>
                walletMax = v1_walletMax claim \<and> totalMax = v1_totalMax claim) \<or>
            (\<exists>i claim.
                try1155 e coll tok ext = None \<and>
                (getClaimV2 e ext coll ci = None \<or> MINT_FEE e ext = None \<or>
                 MINT_FEE_MERKLE e ext = None) \<and>
                ci = Some i \<and> i \<noteq> [] \<and> getClaimV1 e ext coll i = Some claim \<and>
                startDate = v1_startDate claim \<and> endDate = v1_endDate claim \<and>
                walletMax = v1_walletMax claim \<and> totalMax = v1_totalMax claim))"
proof -
  have never: "(if (n::nat) = 0 then None else Some n) \<noteq> Some 0"
    "(if n = 0 then None else Some (toString n)) \<noteq> Some ''0''" for n
    by (simp_all add: toString_eq_zero)
  from assms obtain pre ext post where
    exts: "resolveExtensions e coll extension = Some (pre @ ext # post)"
    and pre: "\<forall>x \<in> set pre. extractExtension e coll tok ci x = Inr None"
    and ext: "extractExtension e coll tok ci ext = Inr (Some [r])"
    by (rule extractByCollection_first)
  from ext show ?thesis
  proof (cases rule: extractExtension_source)
    case (Token iid claim fee)
    from Token(5) have v:
      "startTime r = (if c_startDate claim = 0 then None else Some (c_startDate claim))"
      "endTime r = (if c_endDate claim = 0 then None else Some (c_endDate claim))"
      "maxMintsPerWallet r =
        (if c_walletMax claim = 0 then None else Some (toString (c_walletMax claim)))"
      "maxSupply r = (if c_totalMax claim = 0 then None else Some (toString (c_totalMax claim)))"
      by (auto simp: mint_defs toSafeTimestamp_def)
    from v have
      "startTime r \<noteq> Some 0" "endTime r \<noteq> Some 0"
      "maxMintsPerWallet r \<noteq> Some ''0''" "maxSupply r \<noteq> Some ''0''"
      by (simp_all only: never not_False_eq_True)
    with exts pre ext Token(1-4) v show ?thesis
      by blast
  next
    case (Newer claim f fm)
    from Newer(5) have v:
      "startTime r = (if v1_startDate claim = 0 then None else Some (v1_startDate claim))"
      "endTime r = (if v1_endDate claim = 0 then None else Some (v1_endDate claim))"
      "maxMintsPerWallet r =
        (if v1_walletMax claim = 0 then None else Some (toString (v1_walletMax claim)))"
      "maxSupply r =
        (if v1_totalMax claim = 0 then None else Some (toString (v1_totalMax claim)))"
      by (auto simp: mint_defs toSafeTimestamp_def)
    from v have
      "startTime r \<noteq> Some 0" "endTime r \<noteq> Some 0"
      "maxMintsPerWallet r \<noteq> Some ''0''" "maxSupply r \<noteq> Some ''0''"
      by (simp_all only: never not_False_eq_True)
    with exts pre ext Newer(1-4) v show ?thesis
      by blast
  next
    case (Older i claim)
    from Older(6) have v:
      "startTime r = (if v1_startDate claim = 0 then None else Some (v1_startDate claim))"
      "endTime r = (if v1_endDate claim = 0 then None else Some (v1_endDate claim))"
      "maxMintsPerWallet r =
        (if v1_walletMax claim = 0 then None else Some (toString (v1_walletMax claim)))"
      "maxSupply r =
        (if v1_totalMax claim = 0 then None else Some (toString (v1_totalMax claim)))"
      by (auto simp: mint_defs toSafeTimestamp_def)
    from v have
      "startTime r \<noteq> Some 0" "endTime r \<noteq> Some 0"
      "maxMintsPerWallet r \<noteq> Some ''0''" "maxSupply r \<noteq> Some ''0''"
      by (simp_all only: never not_False_eq_True)
    with exts pre ext Older(1-5) v show ?thesis
      by blast
  qed
qed

text \<open>
  The scenario of the specification: no wallet cap, no start date and the end date 1700000000
  give an absent \<open>maxMintsPerWallet\<close>, an absent \<open>startTime\<close> and that \<open>endTime\<close>; the total
  cap 50 gives the string 50. The same holds for the collection-wide record of the second of two
  extensions.
\<close>

theorem dates_and_caps_normalised_witness:
  "extractByCollection (exEnvToken HashZero) ''0xc1'' ''1'' None None =
     Inr [mint1155Public (exEnvToken HashZero) ''0xc1'' ''1'' ''0xe1'' ''7''
            (exClaim1155 HashZero) 5] \<and>
   startTime (mint1155Public (exEnvToken HashZero) ''0xc1'' ''1'' ''0xe1'' ''7''
            (exClaim1155 HashZero) 5) = None \<and>
   endTime (mint1155Public (exEnvToken HashZero) ''0xc1'' ''1'' ''0xe1'' ''7''
            (exClaim1155 HashZero) 5) = Some 1700000000 \<and>
   maxMintsPerWallet (mint1155Public (exEnvToken HashZero) ''0xc1'' ''1'' ''0xe1'' ''7''
            (exClaim1155 HashZero) 5) = None \<and>
   maxSupply (mint1155Public (exEnvToken HashZero) ''0xc1'' ''1'' ''0xe1'' ''7''
            (exClaim1155 HashZero) 5) = Some ''50'' \<and>
   maxSupply (mint1155Public (exEnvToken HashZero) ''0xc1'' ''1'' ''0xe1'' ''7''
            (exClaim1155 HashZero) 5) \<noteq> Some ''0'' \<and>
   extractByCollection (exEnvSecond exRoot) ''0xc1'' ''1'' None (Some ''3'') =
     Inr [mint721Allowlist (exEnvSecond exRoot) ''0xc1'' ''0xe1'' (Some ''3'')
            (claimConfigV2 (exClaimV2 exRoot) 5 9) (Some ''tree-1'')] \<and>
   startTime (mint721Allowlist (exEnvSecond exRoot) ''0xc1'' ''0xe1'' (Some ''3'')
            (claimConfigV2 (exClaimV2 exRoot) 5 9) (Some ''tree-1'')) = None \<and>
   endTime (mint721Allowlist (exEnvSecond exRoot) ''0xc1'' ''0xe1'' (Some ''3'')
            (claimConfigV2 (exClaimV2 exRoot) 5 9) (Some ''tree-1'')) = Some 1700000000 \<and>
   maxMintsPerWallet (mint721Allowlist (exEnvSecond exRoot) ''0xc1'' ''0xe1'' (Some ''3'')
            (claimConfigV2 (exClaimV2 exRoot) 5 9) (Some ''tree-1'')) = None \<and>
   maxSupply (mint721Allowlist (exEnvSecond exRoot) ''0xc1'' ''0xe1'' (Some ''3'')
            (claimConfigV2 (exClaimV2 exRoot) 5 9) (Some ''tree-1'')) = Some ''50'' \<and>
   endTime (mint721Allowlist (exEnvSecond exRoot) ''0xc1'' ''0xe1'' (Some ''3'')
            (claimConfigV2 (exClaimV2 exRoot) 5 9) (Some ''tree-1'')) \<noteq> Some 0"
proof -
  let ?a = "mint1155Public (exEnvToken HashZero) ''0xc1'' ''1'' ''0xe1'' ''7''
              (exClaim1155 HashZero) 5"
  let ?b = "mint721Allowlist (exEnvSecond exRoot) ''0xc1'' ''0xe1'' (Some ''3'')
              (claimConfigV2 (exClaimV2 exRoot) 5 9) (Some ''tree-1'')"
  have ha: "extractByCollection (exEnvToken HashZero) ''0xc1'' ''1'' None None = Inr [?a]"
    by (rule ex_token_public)
  have hb: "extractByCollection (exEnvSecond exRoot) ''0xc1'' ''1'' None (Some ''3'') = Inr [?b]"
    by (rule ex_second_allowlist)
  have va: "startTime ?a = None" "endTime ?a = Some 1700000000" "maxMintsPerWallet ?a = None"
    "maxSupply ?a = Some ''50''"
    by (simp_all add: mint_defs ex_defs toSafeTimestamp_def toString_eval)
  have vb: "startTime ?b = None" "endTime ?b = Some 1700000000" "maxMintsPerWallet ?b = None"
    "maxSupply ?b = Some ''50''"
    by (simp_all add: mint_defs exClaimV2_def toSafeTimestamp_def toString_eval)
  have ma: "?a \<in> set [?a]" and mb: "?b \<in> set [?b]"
    by simp_all
  have na: "maxSupply ?a \<noteq> Some ''0''"
    using dates_and_caps_normalised [OF ha ma] by (elim exE conjE)
  have nb: "endTime ?b \<noteq> Some 0"
    using dates_and_caps_normalised [OF hb mb] by (elim exE conjE)
  from ha hb va vb na nb show ?thesis
    by simp
qed

subsection \<open>The tokenId field\<close>

text \<open>
  C8 at a collection-wide public claim. The extension has no per-token claim and answers the
  newer \<open>getClaim\<close> shape with a zero root; the record returned for the claim index 3 carries
  the \<open>tokenId\<close> argument. With a non-zero root the record of the same claim has no
  \<open>tokenId\<close>.
\<close>

theorem tokenId_on_collection_wide_public:
  "try1155 (exEnvV2 HashZero) ''0xc1'' ''1'' ''0xe1'' = None \<and>
   extractByCollection (exEnvV2 HashZero) ''0xc1'' ''1'' None (Some ''3'') =
     Inr [mint721Public (exEnvV2 HashZero) ''0xc1'' ''1'' ''0xe1'' (Some ''3'')
            (claimConfigV2 (exClaimV2 HashZero) 5 9)] \<and>
   tokenId (mint721Public (exEnvV2 HashZero) ''0xc1'' ''1'' ''0xe1'' (Some ''3'')
            (claimConfigV2 (exClaimV2 HashZero) 5 9)) = Some ''1'' \<and>
   extractByCollection (exEnvV2 exRoot) ''0xc1'' ''1'' None (Some ''3'') =
     Inr [mint721Allowlist (exEnvV2 exRoot) ''0xc1'' ''0xe1'' (Some ''3'')
            (claimConfigV2 (exClaimV2 exRoot) 5 9) (Some ''tree-1'')] \<and>
   tokenId (mint721Allowlist (exEnvV2 exRoot) ''0xc1'' ''0xe1'' (Some ''3'')
            (claimConfigV2 (exClaimV2 exRoot) 5 9) (Some ''tree-1'')) = None"
proof -
  have "try1155 (exEnvV2 HashZero) ''0xc1'' ''1'' ''0xe1'' = None"
    by (simp add: try1155_def ex_defs)
  then show ?thesis
    using ex_v2_public ex_v2_allowlist by (simp add: mint_defs)
qed

subsection \<open>The claim-index ladder\<close>

lemma getClaimV1_irrelevant_config:
  "claimConfigV1 (e\<lparr>getClaimV1 := g\<rparr>) = claimConfigV1 e"
  by (simp add: fun_eq_iff claimConfigV1_def)

lemma getClaimV1_irrelevant_mints:
  "mint721Public (e\<lparr>getClaimV1 := g\<rparr>) = mint721Public e"
  "mint721Allowlist (e\<lparr>getClaimV1 := g\<rparr>) = mint721Allowlist e"
  by (simp_all add: fun_eq_iff mint_defs)

text \<open>
  C5. In the ladder for one extension: the older \<open>getClaim\<close> is read exactly when a non-empty
  claim index was given, and without one the outcome does not depend on what the older shape
  would answer; the three reads of the newer shape are always made; and when the newer shape's
  claim and both fees are read, \<open>claimConfig\<close> is built from them and the records of the
  ladder do not depend on the older shape's answer.
\<close>

theorem newer_shape_takes_precedence:
  "(CallGetClaimV1 ext coll i \<in> set (fst (resolveClaimConfig e coll ci ext))
      \<longleftrightarrow> ci = Some i \<and> i \<noteq> []) \<and>
   (\<forall>c \<in> set (fst (resolveClaimConfig e coll ci ext)).
      (\<exists>x k j. c = CallGetClaimV1 x k j) \<longrightarrow> truthyOpt ci) \<and>
   CallGetClaimV2 ext coll ci \<in> set (fst (resolveClaimConfig e coll ci ext)) \<and>
   CallMintFee ext \<in> set (fst (resolveClaimConfig e coll ci ext)) \<and>
   CallMintFeeMerkle ext \<in> set (fst (resolveClaimConfig e coll ci ext)) \<and>
   (\<not> truthyOpt ci \<longrightarrow>
      try721 (e\<lparr>getClaimV1 := g\<rparr>) coll tok ci ext = try721 e coll tok ci ext) \<and>
   (getClaimV2 e ext coll ci = Some claim \<and> MINT_FEE e ext = Some f \<and>
    MINT_FEE_MERKLE e ext = Some fm \<longrightarrow>
      snd (resolveClaimConfig e coll ci ext) = Some (claimConfigV2 claim f fm) \<and>
      try721 (e\<lparr>getClaimV1 := g\<rparr>) coll tok ci ext = try721 e coll tok ci ext)"
proof -
  have calls: "fst (resolveClaimConfig e coll ci ext) =
      (if truthyOpt ci then [CallGetClaimV1 ext coll (interp ci)] else []) @
      [CallGetClaimV2 ext coll ci, CallMintFee ext, CallMintFeeMerkle ext]"
    by (simp add: resolveClaimConfig_def tryClaimV1_def tryClaimV2_def truthyOpt_def interp_def
        split: option.splits)
  have v2: "tryClaimV2 (e\<lparr>getClaimV1 := g\<rparr>) coll ci ext prev = tryClaimV2 e coll ci ext prev"
    for prev
    by (simp add: tryClaimV2_def cong: option.case_cong)
  have "tryClaimV1 e' coll ci ext = ([], None)" if "\<not> truthyOpt ci" for e'
    using that by (cases ci) (simp_all add: tryClaimV1_def truthyOpt_def)
  then have nohint: "snd (resolveClaimConfig (e\<lparr>getClaimV1 := g\<rparr>) coll ci ext) =
      snd (resolveClaimConfig e coll ci ext)" if "\<not> truthyOpt ci"
    using that by (simp add: resolveClaimConfig_def v2)
  have newer: "snd (resolveClaimConfig e' coll ci ext) = Some (claimConfigV2 claim f fm)"
    if "getClaimV2 e' ext coll ci = Some claim" "MINT_FEE e' ext = Some f"
      "MINT_FEE_MERKLE e' ext = Some fm" for e'
    using that
    by (simp add: resolveClaimConfig_def tryClaimV1_def tryClaimV2_def split: option.splits)
  have same: "try721 (e\<lparr>getClaimV1 := g\<rparr>) coll tok ci ext = try721 e coll tok ci ext"
    if "snd (resolveClaimConfig (e\<lparr>getClaimV1 := g\<rparr>) coll ci ext) =
        snd (resolveClaimConfig e coll ci ext)"
    using that
    by (simp add: try721_def getClaimV1_irrelevant_mints cong: option.case_cong if_cong)
  have "CallGetClaimV1 ext coll i \<in> set (fst (resolveClaimConfig e coll ci ext))
      \<longleftrightarrow> ci = Some i \<and> i \<noteq> []"
    by (auto simp: calls truthyOpt_def truthy_def interp_def split: option.splits)
  moreover have "\<forall>c \<in> set (fst (resolveClaimConfig e coll ci ext)).
      (\<exists>x k j. c = CallGetClaimV1 x k j) \<longrightarrow> truthyOpt ci"
    by (auto simp: calls)
  moreover have "CallGetClaimV2 ext coll ci \<in> set (fst (resolveClaimConfig e coll ci ext))"
    "CallMintFee ext \<in> set (fst (resolveClaimConfig e coll ci ext))"
    "CallMintFeeMerkle ext \<in> set (fst (resolveClaimConfig e coll ci ext))"
    by (simp_all add: calls)
  moreover have "\<not> truthyOpt ci \<longrightarrow>
      try721 (e\<lparr>getClaimV1 := g\<rparr>) coll tok ci ext = try721 e coll tok ci ext"
    using nohint same by blast
  moreover have "getClaimV2 e ext coll ci = Some claim \<and> MINT_FEE e ext = Some f \<and>
    MINT_FEE_MERKLE e ext = Some fm \<longrightarrow>
      snd (resolveClaimConfig e coll ci ext) = Some (claimConfigV2 claim f fm) \<and>
      try721 (e\<lparr>getClaimV1 := g\<rparr>) coll tok ci ext = try721 e coll tok ci ext"
  proof (intro impI)
    assume a: "getClaimV2 e ext coll ci = Some claim \<and> MINT_FEE e ext = Some f \<and>
      MINT_FEE_MERKLE e ext = Some fm"
    then have 1: "snd (resolveClaimConfig e coll ci ext) = Some (claimConfigV2 claim f fm)"
      using newer [of e] by simp
    from a have 2: "snd (resolveClaimConfig (e\<lparr>getClaimV1 := g\<rparr>) coll ci ext) =
        Some (claimConfigV2 claim f fm)"
      using newer [of "e\<lparr>getClaimV1 := g\<rparr>"] by simp
    from 1 2 same show "snd (resolveClaimConfig e coll ci ext) = Some (claimConfigV2 claim f fm) \<and>
      try721 (e\<lparr>getClaimV1 := g\<rparr>) coll tok ci ext = try721 e coll tok ci ext"
      by simp
  qed
  ultimately show ?thesis
    by blast
qed

text \<open>
  Both shapes answer, with different costs: the record is built from the newer one (cost 100,
  fee 5), not from the older one (cost 77).
\<close>

theorem newer_shape_takes_precedence_witness:
  "truthyOpt (Some ''3'') \<and>
   getClaimV1 (exEnvBoth HashZero) ''0xe1'' ''0xc1'' ''3'' = Some ((exClaimV1 HashZero)\<lparr>v1_cost := 77\<rparr>) \<and>
   getClaimV2 (exEnvBoth HashZero) ''0xe1'' ''0xc1'' (Some ''3'') = Some (exClaimV2 HashZero) \<and>
   MINT_FEE (exEnvBoth HashZero) ''0xe1'' = Some 5 \<and>
   MINT_FEE_MERKLE (exEnvBoth HashZero) ''0xe1'' = Some 9 \<and>
   fst (resolveClaimConfig (exEnvBoth HashZero) ''0xc1'' (Some ''3'') ''0xe1'') =
     [CallGetClaimV1 ''0xe1'' ''0xc1'' ''3'', CallGetClaimV2 ''0xe1'' ''0xc1'' (Some ''3''),
      CallMintFee ''0xe1'', CallMintFeeMerkle ''0xe1''] \<and>
   snd (resolveClaimConfig (exEnvBoth HashZero) ''0xc1'' (Some ''3'') ''0xe1'') =
     Some (claimConfigV2 (exClaimV2 HashZero) 5 9) \<and>
   extractByCollection (exEnvBoth HashZero) ''0xc1'' ''1'' None (Some ''3'') =
     Inr [mint721Public (exEnvBoth HashZero) ''0xc1'' ''1'' ''0xe1'' (Some ''3'')
            (claimConfigV2 (exClaimV2 HashZero) 5 9)]"
proof -
  have a: "getClaimV2 (exEnvBoth HashZero) ''0xe1'' ''0xc1'' (Some ''3'') =
         Some (exClaimV2 HashZero) \<and>
      MINT_FEE (exEnvBoth HashZero) ''0xe1'' = Some 5 \<and>
      MINT_FEE_MERKLE (exEnvBoth HashZero) ''0xe1'' = Some 9"
    by (simp add: exEnvBoth_def exEnv_def)
  have b: "getClaimV1 (exEnvBoth HashZero) ''0xe1'' ''0xc1'' ''3'' =
      Some ((exClaimV1 HashZero)\<lparr>v1_cost := 77\<rparr>)"
    by (simp add: exEnvBoth_def exEnv_def)
  have c: "fst (resolveClaimConfig (exEnvBoth HashZero) ''0xc1'' (Some ''3'') ''0xe1'') =
     [CallGetClaimV1 ''0xe1'' ''0xc1'' ''3'', CallGetClaimV2 ''0xe1'' ''0xc1'' (Some ''3''),
      CallMintFee ''0xe1'', CallMintFeeMerkle ''0xe1'']"
    by (simp add: resolveClaimConfig_def tryClaimV1_def tryClaimV2_def truthy_def
        exEnvBoth_def exEnv_def)
  have d: "snd (resolveClaimConfig (exEnvBoth HashZero) ''0xc1'' (Some ''3'') ''0xe1'') =
     Some (claimConfigV2 (exClaimV2 HashZero) 5 9)"
    using newer_shape_takes_precedence
      [of "''0xe1''" "''0xc1''" "''3''" "exEnvBoth HashZero" "Some ''3''" "\<lambda>x c j. None"
        "''1''"
        "exClaimV2 HashZero" 5 9] a
    by simp
  have t1: "try1155 (exEnvBoth HashZero) ''0xc1'' ''1'' ''0xe1'' = None"
    by (simp add: try1155_def exEnvBoth_def exEnv_def)
  have t7: "try721 (exEnvBoth HashZero) ''0xc1'' ''1'' (Some ''3'') ''0xe1'' =
     Inr (Some [mint721Public (exEnvBoth HashZero) ''0xc1'' ''1'' ''0xe1'' (Some ''3'')
                  (claimConfigV2 (exClaimV2 HashZero) 5 9)])"
    by (simp add: try721_def d exClaimV2_def)
  have ge: "getExtensions (exEnvBoth HashZero) ''0xc1'' = Some [''0xe1'']"
    by (simp add: exEnvBoth_def exEnv_def)
  have "extractByCollection (exEnvBoth HashZero) ''0xc1'' ''1'' None (Some ''3'') =
     Inr [mint721Public (exEnvBoth HashZero) ''0xc1'' ''1'' ''0xe1'' (Some ''3'')
            (claimConfigV2 (exClaimV2 HashZero) 5 9)]"
    by (simp add: extractByCollection_def resolveExtensions_def extractExtension_def t1 t7 ge)
  with a b c d show ?thesis
    by (simp add: truthyOpt_def truthy_def)
qed

subsection \<open>extractByTx\<close>

text \<open>
  C6. When the input starts with the selector of \<open>mint\<close> and its arguments decode to an
  instance id, \<open>extractByTx\<close> is \<open>extractByCollection\<close> with the transaction's target as
  the extension and the decimal string of that id as the claim index. When the input starts with
  neither selector, the result is the empty list.
\<close>

theorem extractByTx_delegates:
  "(startsWith (tx_data t) ''0xfa2b068f'' \<and>
    decodeInstanceId e ''mint'' (tx_data t) = Some instanceId \<longrightarrow>
      extractByTx e coll tok t =
        extractByCollection e coll tok (Some (tx_to t)) (Some (toString instanceId))) \<and>
   (\<not> startsWith (tx_data t) ''0xfa2b068f'' \<and> \<not> startsWith (tx_data t) ''0x26c858a4'' \<longrightarrow>
      extractByTx e coll tok t = Inr [])"
  by (simp add: extractByTx_def)

theorem extractByTx_delegates_witness:
  "startsWith (tx_data exMintTx) ''0xfa2b068f'' \<and>
   decodeInstanceId exEnvTx ''mint'' (tx_data exMintTx) = Some 3 \<and>
   extractByTx exEnvTx ''0xc1'' ''1'' exMintTx =
     extractByCollection exEnvTx ''0xc1'' ''1'' (Some ''0xe1'') (Some ''3'') \<and>
   extractByTx exEnvTx ''0xc1'' ''1'' exMintTx =
     Inr [mint721Public exEnvTx ''0xc1'' ''1'' ''0xe1'' (Some ''3'')
            (claimConfigV2 (exClaimV2 HashZero) 5 9)] \<and>
   \<not> startsWith (tx_data exOtherTx) ''0xfa2b068f'' \<and>
   \<not> startsWith (tx_data exOtherTx) ''0x26c858a4'' \<and>
   extractByTx exEnvTx ''0xc1'' ''1'' exOtherTx = Inr []"
proof -
  have s: "startsWith (tx_data exMintTx) ''0xfa2b068f''"
    "\<not> startsWith (tx_data exOtherTx) ''0xfa2b068f''"
    "\<not> startsWith (tx_data exOtherTx) ''0x26c858a4''"
    by (simp_all add: startsWith_def exMintTx_def exOtherTx_def)
  have d: "decodeInstanceId exEnvTx ''mint'' (tx_data exMintTx) = Some 3"
    by (simp add: exEnvTx_def)
  have t: "tx_to exMintTx = ''0xe1''" "toString 3 = ''3''"
    by (simp_all add: exMintTx_def toString_eval)
  have x: "extractByCollection exEnvTx ''0xc1'' ''1'' (Some ''0xe1'') (Some ''3'') =
     Inr [mint721Public exEnvTx ''0xc1'' ''1'' ''0xe1'' (Some ''3'')
            (claimConfigV2 (exClaimV2 HashZero) 5 9)]"
    by (simp add: extract_defs exEnvTx_def ex_defs)
  from extractByTx_delegates [of exMintTx exEnvTx 3 "''0xc1''" "''1''"]
    extractByTx_delegates [of exOtherTx exEnvTx 3 "''0xc1''" "''1''"] s d t x
  show ?thesis
    by simp
qed

subsection \<open>The proof cache\<close>

lemma cacheKey_same_triple:
  "collection cm' = collection cm \<Longrightarrow> stage cm' = stage cm \<Longrightarrow> tokenId cm' = tokenId cm \<Longrightarrow>
   cacheKey cm' = cacheKey cm"
  by (simp add: cacheKey_def)

lemma generateProofValue_hit:
  "redisGet now st (cacheKey cm) = Some v \<Longrightarrow>
   generateProofValue e now st cm a = (Inr (Some v), st)"
  by (simp add: generateProofValue_def)

lemma generateProofValue_fetch:
  assumes "redisGet now st (cacheKey cm) = None" and "info (details cm) = Some nfo"
    and "axiosGet e (merkleInfoUrl nfo a) = Some (v # vs)"
  shows "generateProofValue e now st cm a =
    (Inr (Some v),
     st\<lparr>fetches := fetches st @ [merkleInfoUrl nfo a],
        cache := (cache st)(cacheKey cm \<mapsto> (v, now + 3600))\<rparr>)"
  using assms by (simp add: generateProofValue_def redisSetEx_def Let_def)

text \<open>
  C9. The cache key is made of the collection, the stage and the tokenId of the record, joined
  by hyphens (a missing tokenId printed as \<open>undefined\<close>), and of nothing else. A call that finds
  a live entry under the key returns it and leaves the state as it is: no request is made. A call
  that misses and is answered with a first entry \<open>v\<close> stores it to expire 3600 seconds later;
  then a call at any time before that, for any record with the same triple, any address and any
  allowlist service, returns \<open>v\<close> and leaves the state as it is. A call that misses and is
  answered with no entry returns nothing and leaves the cache as it is.
\<close>

theorem proof_cache_hit_and_miss:
  "cacheKey cm =
     collection cm @ ''-'' @ stage cm @ ''-'' @
     (case tokenId cm of None \<Rightarrow> ''undefined'' | Some t \<Rightarrow> t) \<and>
   (redisGet now st (cacheKey cm) = Some v \<longrightarrow>
      generateProofValue e now st cm a = (Inr (Some v), st)) \<and>
   (redisGet now st (cacheKey cm) = None \<and> info (details cm) = Some nfo \<and>
    axiosGet e (merkleInfoUrl nfo a) = Some (v # vs) \<and>
    collection cm' = collection cm \<and> stage cm' = stage cm \<and> tokenId cm' = tokenId cm \<and>
    now \<le> now' \<and> now' < now + 3600 \<longrightarrow>
      fst (generateProofValue e now st cm a) = Inr (Some v) \<and>
      cache (snd (generateProofValue e now st cm a)) (cacheKey cm) = Some (v, now + 3600) \<and>
      generateProofValue e' now' (snd (generateProofValue e now st cm a)) cm' a' =
        (Inr (Some v), snd (generateProofValue e now st cm a))) \<and>
   (redisGet now st (cacheKey cm) = None \<and> info (details cm) = Some nfo \<and>
    axiosGet e (merkleInfoUrl nfo a) = Some [] \<longrightarrow>
      fst (generateProofValue e now st cm a) = Inr None \<and>
      cache (snd (generateProofValue e now st cm a)) = cache st)"
proof -
  have key: "cacheKey cm =
     collection cm @ ''-'' @ stage cm @ ''-'' @
     (case tokenId cm of None \<Rightarrow> ''undefined'' | Some t \<Rightarrow> t)"
    by (simp add: cacheKey_def interp_def)
  have second: "fst (generateProofValue e now st cm a) = Inr (Some v) \<and>
      cache (snd (generateProofValue e now st cm a)) (cacheKey cm) = Some (v, now + 3600) \<and>
      generateProofValue e' now' (snd (generateProofValue e now st cm a)) cm' a' =
        (Inr (Some v), snd (generateProofValue e now st cm a))"
    if miss: "redisGet now st (cacheKey cm) = None" "info (details cm) = Some nfo"
      "axiosGet e (merkleInfoUrl nfo a) = Some (v # vs)"
      and same: "collection cm' = collection cm" "stage cm' = stage cm" "tokenId cm' = tokenId cm"
      and time: "now \<le> now'" "now' < now + 3600"
  proof -
    let ?st1 = "st\<lparr>fetches := fetches st @ [merkleInfoUrl nfo a],
        cache := (cache st)(cacheKey cm \<mapsto> (v, now + 3600))\<rparr>"
    have first: "generateProofValue e now st cm a = (Inr (Some v), ?st1)"
      using miss by (rule generateProofValue_fetch)
    have "redisGet now' ?st1 (cacheKey cm') = Some v"
      using time cacheKey_same_triple [OF same] by (simp add: redisGet_def)
    then have "generateProofValue e' now' ?st1 cm' a' = (Inr (Some v), ?st1)"
      by (rule generateProofValue_hit)
    with first show ?thesis
      by simp
  qed
  have none: "fst (generateProofValue e now st cm a) = Inr None \<and>
      cache (snd (generateProofValue e now st cm a)) = cache st"
    if "redisGet now st (cacheKey cm) = None" "info (details cm) = Some nfo"
      "axiosGet e (merkleInfoUrl nfo a) = Some []"
    using that by (simp add: generateProofValue_def Let_def)
  from key second none generateProofValue_hit [of now st cm v e a] show ?thesis
    by blast
qed

text \<open>
  A first call at time 1000 for the address 0xaa, then a call at time 4599 for another address
  against a service that would answer nothing: the cached proof comes back, with the single
  request of the first call on record.
\<close>

theorem proof_cache_hit_and_miss_witness:
  "redisGet 1000 exCache (cacheKey exAllowlistMint) = None \<and>
   info (details exAllowlistMint) = Some \<lparr>merkleTreeId = Some ''t1''\<rparr> \<and>
   axiosGet exEnvProof (merkleInfoUrl \<lparr>merkleTreeId = Some ''t1''\<rparr> ''0xaa'') = Some [exProof] \<and>
   (1000::nat) \<le> 4599 \<and> (4599::nat) < 1000 + 3600 \<and>
   cacheKey exAllowlistMint = ''0xc1-claim-0xe1-7-1'' \<and>
   fst (generateProofValue exEnvProof 1000 exCache exAllowlistMint ''0xaa'') = Inr (Some exProof) \<and>
   fst (generateProofValue exEnv 4599
          (snd (generateProofValue exEnvProof 1000 exCache exAllowlistMint ''0xaa''))
          exAllowlistMint ''0xbb'') = Inr (Some exProof) \<and>
   fetches (snd (generateProofValue exEnv 4599
          (snd (generateProofValue exEnvProof 1000 exCache exAllowlistMint ''0xaa''))
          exAllowlistMint ''0xbb'')) =
     [merkleInfoUrl \<lparr>merkleTreeId = Some ''t1''\<rparr> ''0xaa'']"
proof -
  have m: "redisGet 1000 exCache (cacheKey exAllowlistMint) = None"
    by (simp add: redisGet_def exCache_def)
  have i: "info (details exAllowlistMint) = Some \<lparr>merkleTreeId = Some ''t1''\<rparr>"
    by (simp add: exAllowlistMint_def mint_defs)
  have x: "axiosGet exEnvProof (merkleInfoUrl \<lparr>merkleTreeId = Some ''t1''\<rparr> ''0xaa'') =
      Some [exProof]"
    by (simp add: exEnvProof_def exEnv_def)
  have k: "cacheKey exAllowlistMint = ''0xc1-claim-0xe1-7-1''"
    by (simp add: cacheKey_def exAllowlistMint_def mint_defs lower_e1 interp_def)
  have f: "fetches (snd (generateProofValue exEnvProof 1000 exCache exAllowlistMint ''0xaa'')) =
      [merkleInfoUrl \<lparr>merkleTreeId = Some ''t1''\<rparr> ''0xaa'']"
    using generateProofValue_fetch [OF m i x] by (simp add: exCache_def)
  from proof_cache_hit_and_miss
    [of exAllowlistMint 1000 exCache exProof exEnvProof "''0xaa''"
      "\<lparr>merkleTreeId = Some ''t1''\<rparr>" "[]" exAllowlistMint 4599 exEnv "''0xbb''"]
    m i x k f
  show ?thesis
    by simp
qed

subsection \<open>Reconciliation\<close>

lemma upsertLatest_append: "upsertLatest latest log = log @ latest"
  by (induction latest arbitrary: log) simp_all

lemma find_None_iff_sameMint:
  "(find (\<lambda>l. sameMint l x) latest = None) = (\<forall>l \<in> set latest. \<not> sameMint l x)"
  by (auto simp: find_None_iff)

lemma closeMissing_append:
  "closeMissing latest existing log =
   log @ map (\<lambda>x. x\<lparr>status := Closed\<rparr>)
           (filter (\<lambda>x. \<forall>l \<in> set latest. \<not> sameMint l x) existing)"
  by (induction existing arbitrary: log) (simp_all add: find_None_iff_sameMint)

lemma refreshLoop_closed_form:
  assumes "\<forall>cm \<in> set cms.
             extractByCollection e coll (interp (tokenId cm)) None None =
               Inr (latest (interp (tokenId cm)))"
  shows "refreshLoop e coll existing cms log =
    (log @ concat (map (\<lambda>cm. latest (interp (tokenId cm)) @
                       map (\<lambda>x. x\<lparr>status := Closed\<rparr>)
                         (filter (\<lambda>x. \<forall>l \<in> set (latest (interp (tokenId cm))). \<not> sameMint l x)
                            existing)) cms),
     None)"
  using assms
proof (induction cms arbitrary: log)
  case Nil
  then show ?case by simp
next
  case (Cons cm cms)
  then show ?case
    by (simp add: upsertLatest_append closeMissing_append)
qed

lemma sameMint_mintKey: "sameMint l x = (mintKey l = mintKey x)"
  by (auto simp: sameMint_def mintKey_def)

lemma mintKey_closed [simp]: "mintKey (x\<lparr>status := Closed\<rparr>) = mintKey x"
  by (simp add: mintKey_def)

lemma tokenId_mintKey: "tokenId x = snd (snd (mintKey x))"
  by (simp add: mintKey_def)

lemma getCollectionMints_irrelevant:
  "extractByCollection (e\<lparr>getCollectionMints := g\<rparr>) coll tok extension ci =
   extractByCollection e coll tok extension ci"
proof -
  have m: "mint1155Public (e\<lparr>getCollectionMints := g\<rparr>) = mint1155Public e"
    "mint1155Allowlist (e\<lparr>getCollectionMints := g\<rparr>) = mint1155Allowlist e"
    "mint721Public (e\<lparr>getCollectionMints := g\<rparr>) = mint721Public e"
    "mint721Allowlist (e\<lparr>getCollectionMints := g\<rparr>) = mint721Allowlist e"
    "claimConfigV1 (e\<lparr>getCollectionMints := g\<rparr>) = claimConfigV1 e"
    by (simp_all add: fun_eq_iff mint_defs claimConfigV1_def)
  have a: "try1155 (e\<lparr>getCollectionMints := g\<rparr>) coll tok ext = try1155 e coll tok ext" for ext
    by (simp add: try1155_def m cong: option.case_cong if_cong)
  have "resolveClaimConfig (e\<lparr>getCollectionMints := g\<rparr>) coll ci ext =
      resolveClaimConfig e coll ci ext" for ext
    by (simp add: resolveClaimConfig_def tryClaimV1_def tryClaimV2_def m
        cong: option.case_cong if_cong)
  then have b: "try721 (e\<lparr>getCollectionMints := g\<rparr>) coll tok ci ext = try721 e coll tok ci ext"
    for ext
    by (simp add: try721_def m cong: option.case_cong if_cong)
  have c: "extractExtension (e\<lparr>getCollectionMints := g\<rparr>) coll tok ci ext =
      extractExtension e coll tok ci ext" for ext
    by (simp add: extractExtension_def a b cong: option.case_cong)
  have d: "forExtensions (e\<lparr>getCollectionMints := g\<rparr>) coll tok ci exts =
      forExtensions e coll tok ci exts" for exts
    by (induction exts) (simp_all add: c cong: sum.case_cong option.case_cong)
  have "updateStatuses (e\<lparr>getCollectionMints := g\<rparr>) [] = updateStatuses e []"
    by simp
  then show ?thesis
    by (simp add: extractByCollection_def resolveExtensions_def d
        cong: sum.case_cong option.case_cong if_cong)
qed

lemma ex_keys:
  "mintKey exMintA = (''0xc1'', ''claim-0xe1-7'', Some ''1'')"
  "mintKey exMintOld = (''0xc1'', ''claim-0xe1-5'', Some ''1'')"
  "mintKey exMintTwo = (''0xc1'', ''claim-0xe1-2'', Some ''2'')"
  by (simp_all add: mintKey_def exMintA_def exMintOld_def exMintTwo_def mint_defs lower_e1)

lemma ex_tokenIds:
  "tokenId exMintA = Some ''1''" "tokenId exMintOld = Some ''1''" "tokenId exMintTwo = Some ''2''"
  by (simp_all add: tokenId_mintKey ex_keys)

lemma ex_two_mints:
  "mint1155Public exEnvTwo = mint1155Public exEnv"
  by (simp add: fun_eq_iff mint_defs exEnvTwo_def)

lemma ex_two_token1:
  "extractByCollection exEnvTwo ''0xc1'' ''1'' None None = Inr [exMintA]"
proof -
  have "extractByCollection exEnvTwo ''0xc1'' ''1'' None None =
      Inr [mint1155Public exEnvTwo ''0xc1'' ''1'' ''0xe1'' ''7'' (exClaim1155 HashZero) 5]"
    by (simp add: extract_defs exEnvTwo_def ex_defs toString_eval lower_exEth Let_def)
  then show ?thesis
    by (simp add: ex_two_mints exMintA_def)
qed

lemma ex_two_token2:
  "extractByCollection exEnvTwo ''0xc1'' ''2'' None None = Inr [exMintTwo]"
proof -
  have "extractByCollection exEnvTwo ''0xc1'' ''2'' None None =
      Inr [mint1155Public exEnvTwo ''0xc1'' ''2'' ''0xe1'' ''2'' (exClaim1155 HashZero) 5]"
    by (simp add: extract_defs exEnvTwo_def ex_defs toString_eval lower_exEth Let_def)
  then show ?thesis
    by (simp add: ex_two_mints exMintTwo_def)
qed

text \<open>
  C3 at a collection with two stored records whose tokens both still have their claim. The
  extraction for token 1 returns the stored record of token 1, the extraction for token 2 the
  stored record of token 2. The pass for token 1 writes the record of token 2 closed, and the
  pass for token 2 writes the record of token 1 closed: each record is in the fresh extraction
  of its own token and is closed all the same, and the last write for the record of token 1
  leaves it closed.
\<close>

theorem refresh_closes_live_records:
  "getCollectionMints exEnvLive ''0xc1'' STANDARD = [exMintA, exMintTwo] \<and>
   extractByCollection exEnvLive ''0xc1'' ''1'' None None = Inr [exMintA] \<and>
   extractByCollection exEnvLive ''0xc1'' ''2'' None None = Inr [exMintTwo] \<and>
   refreshByCollection exEnvLive ''0xc1'' =
     ([exMintA, exMintTwo\<lparr>status := Closed\<rparr>, exMintTwo, exMintA\<lparr>status := Closed\<rparr>], None)"
proof -
  have g: "getCollectionMints exEnvLive ''0xc1'' STANDARD = [exMintA, exMintTwo]"
    by (simp add: exEnvLive_def)
  have x: "extractByCollection exEnvLive ''0xc1'' ''1'' None None = Inr [exMintA]"
    "extractByCollection exEnvLive ''0xc1'' ''2'' None None = Inr [exMintTwo]"
    by (simp_all add: exEnvLive_def getCollectionMints_irrelevant ex_two_token1 ex_two_token2)
  have "refreshByCollection exEnvLive ''0xc1'' =
     ([exMintA, exMintTwo\<lparr>status := Closed\<rparr>, exMintTwo, exMintA\<lparr>status := Closed\<rparr>], None)"
    by (simp add: refreshByCollection_def g ex_tokenIds truthyOpt_def truthy_def interp_def x
        sameMint_mintKey ex_keys)
  with g x show ?thesis
    by simp
qed

subsection \<open>The store under repeated refreshes\<close>

lemma refreshWrites_closed_form:
  assumes "\<forall>cm \<in> set T. truthyOpt (tokenId cm) \<longrightarrow>
             extractByCollection e coll (interp (tokenId cm)) None None =
               Inr (latest (interp (tokenId cm)))"
  shows "refreshWrites e coll T =
    concat (map (\<lambda>t. latest t @ map (\<lambda>x. x\<lparr>status := Closed\<rparr>)
                         (filter (\<lambda>x. \<forall>l \<in> set (latest t). \<not> sameMint l x) T))
              (map (\<lambda>cm. interp (tokenId cm)) (filter (\<lambda>cm. truthyOpt (tokenId cm)) T)))"
proof -
  let ?e = "e\<lparr>getCollectionMints := \<lambda>c st. T\<rparr>"
  have "\<forall>cm \<in> set (filter (\<lambda>cm. truthyOpt (tokenId cm)) T).
          extractByCollection ?e coll (interp (tokenId cm)) None None =
            Inr (latest (interp (tokenId cm)))"
    using assms by (simp add: getCollectionMints_irrelevant)
  from refreshLoop_closed_form [OF this, of T "[]"] show ?thesis
    by (simp add: refreshWrites_def refreshByCollection_def Let_def comp_def)
qed

lemma ex_two_first:
  "refreshStore exEnvTwo ''0xc1'' [exMintOld, exMintTwo] =
     [exMintOld\<lparr>status := Closed\<rparr>, exMintTwo, exMintA]"
proof -
  have "\<forall>cm \<in> set [exMintOld, exMintTwo]. truthyOpt (tokenId cm) \<longrightarrow>
      extractByCollection exEnvTwo ''0xc1'' (interp (tokenId cm)) None None =
        Inr ((\<lambda>t. if t = ''1'' then [exMintA] else [exMintTwo]) (interp (tokenId cm)))"
    by (simp add: ex_tokenIds interp_def ex_two_token1 ex_two_token2)
  from refreshWrites_closed_form [OF this] show ?thesis
    by (simp add: refreshStore_def applyWrites_def ex_tokenIds truthyOpt_def truthy_def
        interp_def sameMint_mintKey ex_keys)
qed

lemma ex_two_second:
  "refreshStore exEnvTwo ''0xc1'' [exMintOld\<lparr>status := Closed\<rparr>, exMintTwo, exMintA] =
     [exMintOld\<lparr>status := Closed\<rparr>, exMintTwo\<lparr>status := Closed\<rparr>, exMintA]"
proof -
  have "\<forall>cm \<in> set [exMintOld\<lparr>status := Closed\<rparr>, exMintTwo, exMintA]. truthyOpt (tokenId cm) \<longrightarrow>
      extractByCollection exEnvTwo ''0xc1'' (interp (tokenId cm)) None None =
        Inr ((\<lambda>t. if t = ''1'' then [exMintA] else [exMintTwo]) (interp (tokenId cm)))"
    by (simp add: ex_tokenIds interp_def ex_two_token1 ex_two_token2)
  from refreshWrites_closed_form [OF this] show ?thesis
    by (simp add: refreshStore_def applyWrites_def ex_tokenIds truthyOpt_def truthy_def
        interp_def sameMint_mintKey ex_keys)
qed

text \<open>
  C4 at a store that still holds token 1 under a former instance. Token 1 is stored under
  instance 5 and is now claimed under instance 7; token 2 is stored and still claimed, and its
  extraction returns the stored record. The first refresh closes the old record of token 1,
  leaves token 2 open and adds the new record of token 1. The second refresh, on the same chain,
  ends with the pass of that new record, whose closing loop closes the record of token 2: the
  store after the second call is not the store after the first.
\<close>

theorem refresh_twice_changes_store:
  "extractByCollection exEnvTwo ''0xc1'' ''1'' None None = Inr [exMintA] \<and>
   extractByCollection exEnvTwo ''0xc1'' ''2'' None None = Inr [exMintTwo] \<and>
   refreshStore exEnvTwo ''0xc1'' [exMintOld, exMintTwo] =
     [exMintOld\<lparr>status := Closed\<rparr>, exMintTwo, exMintA] \<and>
   refreshStore exEnvTwo ''0xc1'' (refreshStore exEnvTwo ''0xc1'' [exMintOld, exMintTwo]) =
     [exMintOld\<lparr>status := Closed\<rparr>, exMintTwo\<lparr>status := Closed\<rparr>, exMintA] \<and>
   refreshStore exEnvTwo ''0xc1'' (refreshStore exEnvTwo ''0xc1'' [exMintOld, exMintTwo]) \<noteq>
     refreshStore exEnvTwo ''0xc1'' [exMintOld, exMintTwo]"
proof -
  have "exMintTwo\<lparr>status := Closed\<rparr> \<noteq> exMintTwo"
    by (simp add: exMintTwo_def mint_defs)
  then show ?thesis
    by (simp add: ex_two_first ex_two_second ex_two_token1 ex_two_token2)
qed

end
